theory Spec2Isabelle
  imports Complex_Main "HOL-Library.Multiset"
begin

section \<open>Options contract selection: data model\<close>

text \<open>
  Shallow embedding of \<^verbatim>\<open>findBestOptionsContract\<close> (options utilities of the default
  strategy). JavaScript numbers are modelled as exact reals: rounding, infinities and NaN
  operands are outside the model, except for the NaN time value of an unparsable date,
  which is \<open>None\<close>. Optional fields (\<^verbatim>\<open>?.\<close>, \<^verbatim>\<open>undefined\<close>, \<^verbatim>\<open>null\<close>) are \<open>option\<close>s.
  A rejected promise or a thrown exception is the \<open>Inl\<close> of a sum.
\<close>

datatype direction = Bullish | Bearish

datatype option_type = Call | Put

text \<open>
  A thrown value: one that \<^verbatim>\<open>String(error)\<close> turns into a message, or one whose string
  conversion throws in its turn (an object without \<^verbatim>\<open>toString\<close>, say).
\<close>

datatype error = Thrown string | Unprintable error

fun toString :: "error \<Rightarrow> error + string" where
  "toString (Thrown message) = Inr message"
| "toString (Unprintable e) = Inl e"

record config =
  options_enabled :: bool
  options_min_dte :: real
  options_max_dte :: real
  options_target_delta :: real
  options_min_delta :: real
  options_max_delta :: real
  options_max_pct_per_trade :: real

record OptionsContract =
  symbol :: string
  strike :: real
  expiration :: string
  delta :: real
  mid_price :: real
  max_contracts :: int
  option_type :: option_type

text \<open>The provider's data, as far as the function reads it.\<close>

record chain_contract =
  contract_symbol :: string
  contract_strike :: real

record chain =
  calls :: "chain_contract list option"
  puts :: "chain_contract list option"

record trade =
  price :: "real option"

record quote =
  bid_price :: "real option"
  ask_price :: "real option"

record stock_snapshot =
  latest_trade :: "trade option"
  latest_quote :: "quote option"

record greeks =
  greeks_delta :: "real option"

record option_snapshot =
  opt_greeks :: "greeks option"
  opt_latest_quote :: "quote option"

text \<open>
  The external collaborators. Each call reads and changes a world \<open>'w\<close> that the
  function never inspects, so a provider may answer the same question differently each
  time; \<open>Inl\<close> is a rejected promise.
\<close>

record 'w providers =
  options_getExpirations :: "string \<Rightarrow> 'w \<Rightarrow> (error + string list option) \<times> 'w"
  options_getChain :: "string \<Rightarrow> string \<Rightarrow> 'w \<Rightarrow> (error + chain option) \<times> 'w"
  marketData_getSnapshot :: "string \<Rightarrow> 'w \<Rightarrow> (error + stock_snapshot option) \<times> 'w"
  options_getSnapshot :: "string \<Rightarrow> 'w \<Rightarrow> (error + option_snapshot option) \<times> 'w"

text \<open>
  What the function takes from its runtime: the outcome of
  \<^verbatim>\<open>createAlpacaProviders(ctx.env)\<close>, the time value of \<^verbatim>\<open>new Date(s)\<close> in milliseconds
  (\<open>None\<close> for an invalid date), the time value of \<^verbatim>\<open>new Date()\<close>, and what the
  logger does when the catch handler calls it with the message of the caught value:
  \<open>None\<close> when it returns, \<open>Some e\<close> when it throws \<open>e\<close>.
\<close>

record 'w runtime =
  createAlpacaProviders :: "error + 'w providers"
  Date_getTime :: "string \<Rightarrow> int option"
  Date_now :: int
  ctx_log_error :: "string \<Rightarrow> error option"

text \<open>
  The observable effects: the world of the providers, the provider calls in the order
  they were issued, and the events passed to \<^verbatim>\<open>ctx.log\<close> (the event name only).
  Inside the \<^verbatim>\<open>try\<close> body the logger is taken to return normally; its call in the catch
  handler, which decides whether an exception reaches the caller, is modelled with its
  failure. The list of calls is a ghost record: the source keeps none, it is what the
  statements about call counts and call order speak of.
\<close>

datatype call =
  GetExpirations string
  | GetChain string string
  | GetStockSnapshot string
  | GetOptionSnapshot string

record 'w state =
  world :: 'w
  trace :: "call list"
  logs :: "string list"

definition logEvent :: "string \<Rightarrow> 'w state \<Rightarrow> 'w state" where
  "logEvent ev st = st\<lparr>logs := logs st @ [ev]\<rparr>"

definition await :: "call \<Rightarrow> ('w \<Rightarrow> 'r \<times> 'w) \<Rightarrow> 'w state \<Rightarrow> 'r \<times> 'w state" where
  "await c f st =
     (case f (world st) of (r, w') \<Rightarrow> (r, st\<lparr>world := w', trace := trace st @ [c]\<rparr>))"

section \<open>Expiration selection (lines 41--59)\<close>

definition msPerDay :: int where
  "msPerDay = 1000 * 60 * 60 * 24"

text \<open>\<^verbatim>\<open>Math.ceil((expDate.getTime() - today.getTime()) / (1000 * 60 * 60 * 24))\<close>\<close>

definition dte :: "(string \<Rightarrow> int option) \<Rightarrow> int \<Rightarrow> string \<Rightarrow> int option" where
  "dte getTime today exp' =
     (case getTime exp' of
        None \<Rightarrow> None
      | Some t \<Rightarrow> Some \<lceil>real_of_int (t - today) / real_of_int msPerDay\<rceil>)"

text \<open>\<^verbatim>\<open>dte >= options_min_dte && dte <= options_max_dte\<close>; false on NaN.\<close>

definition dteInWindow :: "config \<Rightarrow> int option \<Rightarrow> bool" where
  "dteInWindow cfg d =
     (case d of
        None \<Rightarrow> False
      | Some n \<Rightarrow> real_of_int n \<ge> options_min_dte cfg \<and> real_of_int n \<le> options_max_dte cfg)"

text \<open>\<^verbatim>\<open>Math.abs(dte - targetDTE) < Math.abs(currentBestDte - targetDTE)\<close>; false on NaN.\<close>

definition closerDTE :: "real \<Rightarrow> int option \<Rightarrow> int option \<Rightarrow> bool" where
  "closerDTE targetDTE d currentBestDte =
     (case d of
        None \<Rightarrow> False
      | Some x \<Rightarrow>
          (case currentBestDte of
             None \<Rightarrow> False
           | Some y \<Rightarrow> \<bar>real_of_int x - targetDTE\<bar> < \<bar>real_of_int y - targetDTE\<bar>))"

definition validExpirations :: "(string \<Rightarrow> int option) \<Rightarrow> int \<Rightarrow> config \<Rightarrow> string list \<Rightarrow> string list" where
  "validExpirations getTime today cfg expirations =
     filter (\<lambda>exp'. dteInWindow cfg (dte getTime today exp')) expirations"

definition targetDTE :: "config \<Rightarrow> real" where
  "targetDTE cfg = (options_min_dte cfg + options_max_dte cfg) / 2"

definition reduceBest :: "(string \<Rightarrow> int option) \<Rightarrow> int \<Rightarrow> config \<Rightarrow> string \<Rightarrow> string \<Rightarrow> string" where
  "reduceBest getTime today cfg best exp' =
     (if closerDTE (targetDTE cfg) (dte getTime today exp') (dte getTime today best)
      then exp' else best)"

text \<open>
  Lines 42--59: \<open>None\<close> is the \<^verbatim>\<open>return null\<close> of line 50; the reduce starts from
  \<^verbatim>\<open>validExpirations[0]\<close> and visits every element, the first one included.
\<close>

definition selectExpiration :: "(string \<Rightarrow> int option) \<Rightarrow> int \<Rightarrow> config \<Rightarrow> string list \<Rightarrow> string option" where
  "selectExpiration getTime today cfg expirations =
     (case validExpirations getTime today cfg expirations of
        [] \<Rightarrow> None
      | first # rest \<Rightarrow> Some (foldl (reduceBest getTime today cfg) first (first # rest)))"

section \<open>Strike target and ranking (lines 74--85)\<close>

text \<open>\<^verbatim>\<open>a || b\<close> on numbers: \<^verbatim>\<open>undefined\<close> and 0 fall through to \<open>b\<close>.\<close>

definition js_or :: "real option \<Rightarrow> real \<Rightarrow> real" where
  "js_or a b = (case a of None \<Rightarrow> b | Some v \<Rightarrow> if v = 0 then b else v)"

definition stockPrice :: "stock_snapshot option \<Rightarrow> real" where
  "stockPrice snapshot =
     js_or (Option.bind (Option.bind snapshot latest_trade) price)
       (js_or (Option.bind (Option.bind snapshot latest_quote) ask_price)
          (js_or (Option.bind (Option.bind snapshot latest_quote) bid_price) 0))"

definition targetStrike :: "direction \<Rightarrow> real \<Rightarrow> real \<Rightarrow> real" where
  "targetStrike direction stockPrice' targetDelta =
     (if direction = Bullish
      then stockPrice' * (1 - (targetDelta - 0.5) * 0.2)
      else stockPrice' * (1 + (targetDelta - 0.5) * 0.2))"

text \<open>
  \<^verbatim>\<open>contracts.filter(c => c.strike > 0).sort((a, b) => |a.strike - t| - |b.strike - t|)\<close>.
  \<^verbatim>\<open>Array.prototype.sort\<close> is stable and the comparator is the difference of one key,
  so it is the stable sort by that key.
\<close>

definition strikeDistance :: "real \<Rightarrow> chain_contract \<Rightarrow> real" where
  "strikeDistance targetStrike' c = \<bar>contract_strike c - targetStrike'\<bar>"

definition sortedContracts :: "chain_contract list \<Rightarrow> real \<Rightarrow> chain_contract list" where
  "sortedContracts contracts targetStrike' =
     sort_key (strikeDistance targetStrike') (filter (\<lambda>c. contract_strike c > 0) contracts)"

section \<open>Candidate qualification (lines 87--131)\<close>

text \<open>
  The body of the loop after the snapshot has arrived (lines 89--128): \<open>None\<close> is a
  \<^verbatim>\<open>continue\<close>, \<open>Some\<close> the returned contract.
\<close>

definition qualifyCandidate ::
  "config \<Rightarrow> direction \<Rightarrow> real \<Rightarrow> string \<Rightarrow> chain_contract \<Rightarrow> option_snapshot option
     \<Rightarrow> OptionsContract option" where
  "qualifyCandidate cfg direction equity bestExpiration contract optSnapshot =
     (case optSnapshot of
        None \<Rightarrow> None
      | Some snap \<Rightarrow>
          (case Option.bind (opt_greeks snap) greeks_delta of
             None \<Rightarrow> None
           | Some delta' \<Rightarrow>
               (let absDelta = \<bar>delta'\<bar> in
                if absDelta < options_min_delta cfg \<or> absDelta > options_max_delta cfg then None
                else
                  (let bid = js_or (Option.bind (opt_latest_quote snap) bid_price) 0;
                       ask = js_or (Option.bind (opt_latest_quote snap) ask_price) 0
                   in
                   if bid = 0 \<or> ask = 0 then None
                   else
                     (let spread = (ask - bid) / ask in
                      if spread > 0.1 then None
                      else
                        (let midPrice = (bid + ask) / 2;
                             maxCost = equity * options_max_pct_per_trade cfg;
                             maxContracts = \<lfloor>maxCost / (midPrice * 100)\<rfloor>
                         in
                         if maxContracts < 1 then None
                         else
                           Some \<lparr>symbol = contract_symbol contract,
                                 strike = contract_strike contract,
                                 expiration = bestExpiration,
                                 delta = delta',
                                 mid_price = midPrice,
                                 max_contracts = maxContracts,
                                 option_type = (if direction = Bullish then Call else Put)\<rparr>))))))"

text \<open>
  The \<^verbatim>\<open>for\<close> loop of lines 87--129 over the slice it is given, and the
  \<^verbatim>\<open>return null\<close> of line 131 when the slice is exhausted. A rejected snapshot promise
  leaves the loop as an exception.
\<close>

fun qualifyLoop ::
  "'w providers \<Rightarrow> config \<Rightarrow> direction \<Rightarrow> real \<Rightarrow> string \<Rightarrow> chain_contract list \<Rightarrow> 'w state
     \<Rightarrow> (error + OptionsContract option) \<times> 'w state" where
  "qualifyLoop alpaca cfg direction equity bestExpiration [] st = (Inr None, st)"
| "qualifyLoop alpaca cfg direction equity bestExpiration (contract # rest) st =
     (case await (GetOptionSnapshot (contract_symbol contract))
             (options_getSnapshot alpaca (contract_symbol contract)) st of
        (Inl e, st') \<Rightarrow> (Inl e, st')
      | (Inr optSnapshot, st') \<Rightarrow>
          (case qualifyCandidate cfg direction equity bestExpiration contract optSnapshot of
             None \<Rightarrow> qualifyLoop alpaca cfg direction equity bestExpiration rest st'
           | Some result \<Rightarrow> (Inr (Some result), logEvent ''contract_selected'' st')))"

section \<open>The pipeline (lines 30--135)\<close>

text \<open>Lines 74--131: from the underlying price to the end of the loop.\<close>

definition rankAndQualify ::
  "'w providers \<Rightarrow> config \<Rightarrow> direction \<Rightarrow> real \<Rightarrow> string \<Rightarrow> chain_contract list
     \<Rightarrow> stock_snapshot option \<Rightarrow> 'w state \<Rightarrow> (error + OptionsContract option) \<times> 'w state" where
  "rankAndQualify alpaca cfg direction equity bestExpiration contracts snapshot st =
     (if stockPrice snapshot = 0 then (Inr None, st)
      else
        qualifyLoop alpaca cfg direction equity bestExpiration
          (take 5 (sortedContracts contracts
             (targetStrike direction (stockPrice snapshot) (options_target_delta cfg)))) st)"

text \<open>
  Lines 61--73: the chain, the side of the chain, the underlying snapshot with its
  \<^verbatim>\<open>.catch(() => null)\<close>.
\<close>

definition fetchChain ::
  "'w providers \<Rightarrow> config \<Rightarrow> string \<Rightarrow> direction \<Rightarrow> real \<Rightarrow> string \<Rightarrow> 'w state
     \<Rightarrow> (error + OptionsContract option) \<times> 'w state" where
  "fetchChain alpaca cfg symbol' direction equity bestExpiration st =
     (case await (GetChain symbol' bestExpiration)
             (options_getChain alpaca symbol' bestExpiration) st of
        (Inl e, st1) \<Rightarrow> (Inl e, st1)
      | (Inr None, st1) \<Rightarrow> (Inr None, logEvent ''chain_failed'' st1)
      | (Inr (Some chain'), st1) \<Rightarrow>
          (case (if direction = Bullish then calls chain' else puts chain') of
             None \<Rightarrow> (Inr None, logEvent ''no_contracts'' st1)
           | Some contracts \<Rightarrow>
               if contracts = [] then (Inr None, logEvent ''no_contracts'' st1)
               else
                 (case await (GetStockSnapshot symbol') (marketData_getSnapshot alpaca symbol') st1 of
                    (r, st2) \<Rightarrow>
                      rankAndQualify alpaca cfg direction equity bestExpiration contracts
                        (case r of Inl e \<Rightarrow> None | Inr snapshot \<Rightarrow> snapshot) st2)))"

text \<open>Lines 33--131: the body of the \<^verbatim>\<open>try\<close>; \<open>Inl\<close> is an exception leaving it.\<close>

definition tryBody ::
  "'w runtime \<Rightarrow> config \<Rightarrow> string \<Rightarrow> direction \<Rightarrow> real \<Rightarrow> 'w state
     \<Rightarrow> (error + OptionsContract option) \<times> 'w state" where
  "tryBody rt cfg symbol' direction equity st =
     (case createAlpacaProviders rt of
        Inl e \<Rightarrow> (Inl e, st)
      | Inr alpaca \<Rightarrow>
          (case await (GetExpirations symbol') (options_getExpirations alpaca symbol') st of
             (Inl e, st1) \<Rightarrow> (Inl e, st1)
           | (Inr None, st1) \<Rightarrow> (Inr None, logEvent ''no_expirations'' st1)
           | (Inr (Some expirations), st1) \<Rightarrow>
               if expirations = [] then (Inr None, logEvent ''no_expirations'' st1)
               else
                 (case selectExpiration (Date_getTime rt) (Date_now rt) cfg expirations of
                    None \<Rightarrow> (Inr None, logEvent ''no_valid_expirations'' st1)
                  | Some bestExpiration \<Rightarrow>
                      fetchChain alpaca cfg symbol' direction equity bestExpiration st1)))"

text \<open>
  The catch handler of lines 132--135:
  \<^verbatim>\<open>ctx.log("Options", "error", { symbol, message: String(error) }); return null\<close>.
  The argument is evaluated first, so a value without a string conversion throws before the
  logger is called; then the logger may throw; only then is null returned. An exception of
  the handler is not caught by anything.
\<close>

definition catchHandler ::
  "'w runtime \<Rightarrow> error \<Rightarrow> 'w state \<Rightarrow> (error + OptionsContract option) \<times> 'w state" where
  "catchHandler rt e st =
     (case toString e of
        Inl e' \<Rightarrow> (Inl e', st)
      | Inr message \<Rightarrow>
          (case ctx_log_error rt message of
             Some e' \<Rightarrow> (Inl e', st)
           | None \<Rightarrow> (Inr None, logEvent ''error'' st)))"

text \<open>
  The whole function: the guard of line 30, the \<^verbatim>\<open>try\<close>, and the \<^verbatim>\<open>catch\<close> of lines
  132--135. The result type keeps \<open>Inl\<close> for an exception reaching the caller.
\<close>

definition findBestOptionsContract ::
  "'w runtime \<Rightarrow> config \<Rightarrow> string \<Rightarrow> direction \<Rightarrow> real \<Rightarrow> 'w state
     \<Rightarrow> (error + OptionsContract option) \<times> 'w state" where
  "findBestOptionsContract rt cfg symbol' direction equity st =
     (if \<not> options_enabled cfg then (Inr None, st)
      else
        (case tryBody rt cfg symbol' direction equity st of
           (Inl e, st') \<Rightarrow> catchHandler rt e st'
         | (Inr result, st') \<Rightarrow> (Inr result, st')))"

section \<open>Vocabulary of the statements\<close>

text \<open>
  The day-granular reading of the DTE: both instants are truncated to the UTC midnight at or
  before them, then subtracted.
\<close>

definition midnight :: "int \<Rightarrow> int" where
  "midnight t = (t div msPerDay) * msPerDay"

definition truncatedDTE :: "int \<Rightarrow> int \<Rightarrow> int" where
  "truncatedDTE t today = \<lceil>real_of_int (midnight t - midnight today) / real_of_int msPerDay\<rceil>"

text \<open>
  The distance of an expiration's DTE to the midpoint of the window; every expiration that
  passed the filter has a DTE, so the \<open>None\<close> case is never compared.
\<close>

definition dteDistance :: "(string \<Rightarrow> int option) \<Rightarrow> int \<Rightarrow> config \<Rightarrow> string \<Rightarrow> real" where
  "dteDistance getTime today cfg e =
     (case dte getTime today e of
        None \<Rightarrow> 0
      | Some d \<Rightarrow> \<bar>real_of_int d - (options_min_dte cfg + options_max_dte cfg) / 2\<bar>)"

text \<open>The three price sources of the underlying snapshot, and when one is used.\<close>

definition tradePrice :: "stock_snapshot option \<Rightarrow> real option" where
  "tradePrice snapshot = Option.bind (Option.bind snapshot latest_trade) price"

definition askPrice :: "stock_snapshot option \<Rightarrow> real option" where
  "askPrice snapshot = Option.bind (Option.bind snapshot latest_quote) ask_price"

definition bidPrice :: "stock_snapshot option \<Rightarrow> real option" where
  "bidPrice snapshot = Option.bind (Option.bind snapshot latest_quote) bid_price"

definition zeroOrMissing :: "real option \<Rightarrow> bool" where
  "zeroOrMissing a = (case a of None \<Rightarrow> True | Some v \<Rightarrow> v = 0)"

text \<open>What the qualifier reads from a contract snapshot.\<close>

definition snapshotDelta :: "option_snapshot \<Rightarrow> real option" where
  "snapshotDelta snap = Option.bind (opt_greeks snap) greeks_delta"

definition snapshotBid :: "option_snapshot \<Rightarrow> real" where
  "snapshotBid snap = js_or (Option.bind (opt_latest_quote snap) bid_price) 0"

definition snapshotAsk :: "option_snapshot \<Rightarrow> real" where
  "snapshotAsk snap = js_or (Option.bind (opt_latest_quote snap) ask_price) 0"

definition sizing :: "real \<Rightarrow> config \<Rightarrow> real \<Rightarrow> int" where
  "sizing equity cfg midPrice = \<lfloor>equity * options_max_pct_per_trade cfg / (midPrice * 100)\<rfloor>"

text \<open>The gates in front of the sizing: delta present and in the band, a live market, a tight spread.\<close>

definition gatesBeforeSizing :: "config \<Rightarrow> option_snapshot \<Rightarrow> bool" where
  "gatesBeforeSizing cfg snap =
     (case snapshotDelta snap of
        None \<Rightarrow> False
      | Some d \<Rightarrow>
          options_min_delta cfg \<le> \<bar>d\<bar> \<and> \<bar>d\<bar> \<le> options_max_delta cfg
          \<and> snapshotBid snap \<noteq> 0 \<and> snapshotAsk snap \<noteq> 0
          \<and> (snapshotAsk snap - snapshotBid snap) / snapshotAsk snap \<le> 0.1)"

text \<open>
  The answers the provider gives when the contracts are probed one after the other from
  world \<open>w\<close>; the loop consumes a prefix of them.
\<close>

fun probes :: "'w providers \<Rightarrow> chain_contract list \<Rightarrow> 'w \<Rightarrow> (error + option_snapshot option) list" where
  "probes alpaca [] w = []"
| "probes alpaca (c # cs) w =
     (case options_getSnapshot alpaca (contract_symbol c) w of
        (r, w') \<Rightarrow> r # probes alpaca cs w')"

definition rejected ::
  "config \<Rightarrow> direction \<Rightarrow> real \<Rightarrow> string \<Rightarrow> chain_contract \<times> (error + option_snapshot option)
     \<Rightarrow> bool" where
  "rejected cfg direction equity bestExpiration p =
     (case snd p of
        Inl e \<Rightarrow> False
      | Inr s \<Rightarrow> qualifyCandidate cfg direction equity bestExpiration (fst p) s = None)"

definition outcome ::
  "config \<Rightarrow> direction \<Rightarrow> real \<Rightarrow> string
     \<Rightarrow> (chain_contract \<times> (error + option_snapshot option)) list
     \<Rightarrow> error + OptionsContract option" where
  "outcome cfg direction equity bestExpiration ps =
     (case ps of
        [] \<Rightarrow> Inr None
      | p # _ \<Rightarrow>
          (case snd p of
             Inl e \<Rightarrow> Inl e
           | Inr s \<Rightarrow> Inr (qualifyCandidate cfg direction equity bestExpiration (fst p) s)))"

text \<open>The catch handler gets through: the caught value has a message and the logger takes it.\<close>

definition handlerCompletes :: "'w runtime \<Rightarrow> error \<Rightarrow> bool" where
  "handlerCompletes rt e =
     (case toString e of
        Inl e' \<Rightarrow> False
      | Inr message \<Rightarrow> ctx_log_error rt message = None)"

definition probeCall :: "chain_contract \<Rightarrow> call" where
  "probeCall c = GetOptionSnapshot (contract_symbol c)"

text \<open>The state after a provider call \<open>c\<close> that left the world at \<open>w\<close>.\<close>

definition called :: "call list \<Rightarrow> 'w \<Rightarrow> 'w state \<Rightarrow> 'w state" where
  "called cs w st = st\<lparr>world := w, trace := trace st @ cs\<rparr>"

section \<open>A concrete market\<close>

text \<open>
  One scenario on which the statements are evaluated: 1 January 2026, 09:30 UTC, a window
  of 7 to 21 days, four expirations, eight calls, and a provider that counts its calls in
  the world and throws at call number \<open>failAt\<close>.
\<close>

definition demoConfig :: config where
  "demoConfig =
     \<lparr>options_enabled = True, options_min_dte = 7, options_max_dte = 21,
      options_target_delta = 0.7, options_min_delta = 0.3, options_max_delta = 0.8,
      options_max_pct_per_trade = 0.05\<rparr>"

definition demoGetTime :: "string \<Rightarrow> int option" where
  "demoGetTime s =
     (if s = ''2026-01-31'' then Some (20484 * msPerDay)
      else if s = ''2026-01-11'' then Some (20464 * msPerDay)
      else if s = ''2026-01-19'' then Some (20472 * msPerDay)
      else if s = ''2026-01-01T16:00:00Z'' then Some (20454 * msPerDay + 57600000)
      else None)"

definition demoToday :: int where
  "demoToday = 20454 * msPerDay + 34200000"

definition demoExpirations :: "string list" where
  "demoExpirations = [''2026-01-31'', ''2026-01-11'', ''soon'', ''2026-01-19'']"

definition demoCalls :: "chain_contract list" where
  "demoCalls =
     [\<lparr>contract_symbol = ''C98'', contract_strike = 98\<rparr>,
      \<lparr>contract_symbol = ''C0'', contract_strike = 0\<rparr>,
      \<lparr>contract_symbol = ''C120'', contract_strike = 120\<rparr>,
      \<lparr>contract_symbol = ''C94'', contract_strike = 94\<rparr>,
      \<lparr>contract_symbol = ''C100'', contract_strike = 100\<rparr>,
      \<lparr>contract_symbol = ''C80'', contract_strike = 80\<rparr>,
      \<lparr>contract_symbol = ''C90'', contract_strike = 90\<rparr>,
      \<lparr>contract_symbol = ''C104'', contract_strike = 104\<rparr>]"

definition demoRanked :: "chain_contract list" where
  "demoRanked =
     [\<lparr>contract_symbol = ''C98'', contract_strike = 98\<rparr>,
      \<lparr>contract_symbol = ''C94'', contract_strike = 94\<rparr>,
      \<lparr>contract_symbol = ''C100'', contract_strike = 100\<rparr>,
      \<lparr>contract_symbol = ''C90'', contract_strike = 90\<rparr>,
      \<lparr>contract_symbol = ''C104'', contract_strike = 104\<rparr>,
      \<lparr>contract_symbol = ''C80'', contract_strike = 80\<rparr>,
      \<lparr>contract_symbol = ''C120'', contract_strike = 120\<rparr>]"

definition demoWide :: option_snapshot where
  "demoWide =
     \<lparr>opt_greeks = Some \<lparr>greeks_delta = Some 0.6\<rparr>,
      opt_latest_quote = Some \<lparr>bid_price = Some 4, ask_price = Some 5\<rparr>\<rparr>"

definition demoDear :: option_snapshot where
  "demoDear =
     \<lparr>opt_greeks = Some \<lparr>greeks_delta = Some 0.7\<rparr>,
      opt_latest_quote = Some \<lparr>bid_price = Some 5.9, ask_price = Some 6.1\<rparr>\<rparr>"

definition demoGood :: option_snapshot where
  "demoGood =
     \<lparr>opt_greeks = Some \<lparr>greeks_delta = Some 0.55\<rparr>,
      opt_latest_quote = Some \<lparr>bid_price = Some 4.7, ask_price = Some 4.9\<rparr>\<rparr>"

definition demoSnapshot :: "string \<Rightarrow> option_snapshot option" where
  "demoSnapshot s =
     (if s = ''C98'' then Some demoWide
      else if s = ''C94'' then Some demoDear
      else if s = ''C100'' then Some demoGood
      else None)"

definition demoStock :: "stock_snapshot option" where
  "demoStock = Some \<lparr>latest_trade = Some \<lparr>price = Some 100\<rparr>, latest_quote = None\<rparr>"

definition demoNoPrice :: "stock_snapshot option" where
  "demoNoPrice =
     Some \<lparr>latest_trade = None,
           latest_quote = Some \<lparr>bid_price = Some 0, ask_price = None\<rparr>\<rparr>"

definition demoAlpaca :: "nat \<Rightarrow> stock_snapshot option \<Rightarrow> nat providers" where
  "demoAlpaca failAt stock =
     \<lparr>options_getExpirations =
        (\<lambda>s w. (if w = failAt then Inl (Thrown ''timeout'')
                 else Inr (Some demoExpirations), Suc w)),
      options_getChain =
        (\<lambda>s e w. (if w = failAt then Inl (Thrown ''timeout'')
                   else Inr (Some \<lparr>calls = Some demoCalls, puts = Some []\<rparr>), Suc w)),
      marketData_getSnapshot =
        (\<lambda>s w. (if w = failAt then Inl (Thrown ''timeout'') else Inr stock, Suc w)),
      options_getSnapshot =
        (\<lambda>s w. (if w = failAt then Inl (Thrown ''timeout'')
                 else Inr (demoSnapshot s), Suc w))\<rparr>"

definition demoRuntime :: "nat \<Rightarrow> stock_snapshot option \<Rightarrow> nat runtime" where
  "demoRuntime failAt stock =
     \<lparr>createAlpacaProviders = Inr (demoAlpaca failAt stock),
      Date_getTime = demoGetTime, Date_now = demoToday,
      ctx_log_error = (\<lambda>message. None)\<rparr>"

text \<open>The same policy with a window of 40 to 50 days, which none of the expirations meets.\<close>

definition demoNarrow :: config where
  "demoNarrow = demoConfig\<lparr>options_min_dte := 40, options_max_dte := 50\<rparr>"

definition demoState :: "nat state" where
  "demoState = \<lparr>world = 0, trace = [], logs = []\<rparr>"







section \<open>Days to expiration\<close>

lemma msPerDay_pos: "0 < msPerDay"
  by (simp add: msPerDay_def)

lemma truncatedDTE_eq: "truncatedDTE t today = t div msPerDay - today div msPerDay"
proof -
  have "real_of_int (midnight t - midnight today) / real_of_int msPerDay
      = real_of_int (t div msPerDay - today div msPerDay)"
    using msPerDay_pos by (simp add: midnight_def field_simps)
  then show ?thesis unfolding truncatedDTE_def by simp
qed

lemma ceiling_days_at_midnight:
  assumes "t mod msPerDay = 0"
  shows "\<lceil>real_of_int (t - today) / real_of_int msPerDay\<rceil> = t div msPerDay - today div msPerDay"
proof -
  let ?D = msPerDay
  have D: "0 < ?D" by (rule msPerDay_pos)
  have t: "t = (t div ?D) * ?D" using assms by (metis add.right_neutral div_mult_mod_eq)
  have n: "today = (today div ?D) * ?D + today mod ?D" by simp
  have r0: "0 \<le> today mod ?D" and r1: "today mod ?D < ?D" using D by simp_all
  have eq: "t - today = (t div ?D - today div ?D) * ?D - today mod ?D"
    using t n by (metis left_diff_distrib diff_diff_eq)
  have "real_of_int (t - today)
      = real_of_int (t div ?D - today div ?D) * real_of_int ?D - real_of_int (today mod ?D)"
    using arg_cong [OF eq, of real_of_int] by (simp only: of_int_diff of_int_mult)
  then have "real_of_int (t - today) / real_of_int ?D
      = real_of_int (t div ?D - today div ?D) - real_of_int (today mod ?D) / real_of_int ?D"
    using D by (simp add: diff_divide_distrib)
  moreover have "0 \<le> real_of_int (today mod ?D) / real_of_int ?D" using r0 D by simp
  moreover have "real_of_int (today mod ?D) / real_of_int ?D < 1" using r1 D by simp
  ultimately show ?thesis
    by (simp add: ceiling_eq_iff)
qed

lemma ceiling_days_future:
  assumes "today < t"
  shows "1 \<le> \<lceil>real_of_int (t - today) / real_of_int msPerDay\<rceil>"
proof -
  have "0 < real_of_int (t - today) / real_of_int msPerDay"
    using assms msPerDay_pos by simp
  then show ?thesis by linarith
qed

lemma midnight_less_imp_less:
  assumes "midnight today < midnight t"
  shows "today < t"
proof (rule ccontr)
  assume "\<not> today < t"
  then have "t div msPerDay \<le> today div msPerDay"
    using msPerDay_pos by (simp add: zdiv_mono1)
  then have "midnight t \<le> midnight today"
    using msPerDay_pos by (simp add: midnight_def)
  with assms show False by simp
qed

section \<open>The reduce of the expiration selector\<close>

lemma validExpirations_set:
  "e \<in> set (validExpirations getTime today cfg exps) \<longleftrightarrow>
     e \<in> set exps \<and> (\<exists>d. dte getTime today e = Some d
        \<and> options_min_dte cfg \<le> real_of_int d \<and> real_of_int d \<le> options_max_dte cfg)"
  by (auto simp: validExpirations_def dteInWindow_def split: option.splits)

lemma validExpirations_filter:
  "validExpirations getTime today cfg exps =
     filter (\<lambda>e. \<exists>d. dte getTime today e = Some d
        \<and> options_min_dte cfg \<le> real_of_int d \<and> real_of_int d \<le> options_max_dte cfg) exps"
  unfolding validExpirations_def
  by (rule filter_cong) (auto simp: dteInWindow_def split: option.splits)

lemma reduceBest_dist:
  assumes "dte getTime today b \<noteq> None" "dte getTime today x \<noteq> None"
  shows "reduceBest getTime today cfg b x =
     (if dteDistance getTime today cfg x < dteDistance getTime today cfg b then x else b)"
  using assms by (auto simp: reduceBest_def closerDTE_def dteDistance_def targetDTE_def)

lemma reduceBest_self: "reduceBest getTime today cfg b b = b"
  by (simp add: reduceBest_def)

lemma foldl_reduceBest:
  assumes "\<forall>x \<in> set xs. dte getTime today x \<noteq> None" "dte getTime today b \<noteq> None"
  shows "(foldl (reduceBest getTime today cfg) b xs = b
            \<and> (\<forall>x \<in> set xs. dteDistance getTime today cfg b \<le> dteDistance getTime today cfg x))
       \<or> (\<exists>ys zs. xs = ys @ foldl (reduceBest getTime today cfg) b xs # zs
            \<and> dteDistance getTime today cfg (foldl (reduceBest getTime today cfg) b xs)
                 < dteDistance getTime today cfg b
            \<and> (\<forall>y \<in> set ys. dteDistance getTime today cfg (foldl (reduceBest getTime today cfg) b xs)
                 < dteDistance getTime today cfg y)
            \<and> (\<forall>z \<in> set zs. dteDistance getTime today cfg (foldl (reduceBest getTime today cfg) b xs)
                 \<le> dteDistance getTime today cfg z))"
  using assms
proof (induction xs arbitrary: b)
  case Nil
  then show ?case by simp
next
  case (Cons x xs)
  let ?d = "dteDistance getTime today cfg"
  let ?f = "foldl (reduceBest getTime today cfg)"
  have xs: "\<forall>y \<in> set xs. dte getTime today y \<noteq> None" and x: "dte getTime today x \<noteq> None"
    using Cons.prems(1) by simp_all
  show ?case
  proof (cases "?d x < ?d b")
    case True
    then have step: "?f b (x # xs) = ?f x xs"
      using reduceBest_dist [OF Cons.prems(2) x] by simp
    from Cons.IH [OF xs x] show ?thesis
    proof (elim disjE conjE exE)
      assume "?f x xs = x" "\<forall>y \<in> set xs. ?d x \<le> ?d y"
      then have "x # xs = [] @ ?f b (x # xs) # xs \<and> ?d (?f b (x # xs)) < ?d b
         \<and> (\<forall>z \<in> set xs. ?d (?f b (x # xs)) \<le> ?d z)"
        using True step by simp
      then show ?thesis by (metis empty_iff list.set(1))
    next
      fix ys zs
      assume a: "xs = ys @ ?f x xs # zs" "?d (?f x xs) < ?d x"
        "\<forall>y \<in> set ys. ?d (?f x xs) < ?d y" "\<forall>z \<in> set zs. ?d (?f x xs) \<le> ?d z"
      have "x # xs = (x # ys) @ ?f b (x # xs) # zs" using a(1) step by simp
      moreover have "?d (?f b (x # xs)) < ?d b" using a(2) True step by simp
      moreover have "\<forall>y \<in> set (x # ys). ?d (?f b (x # xs)) < ?d y" using a(2,3) step by simp
      moreover have "\<forall>z \<in> set zs. ?d (?f b (x # xs)) \<le> ?d z" using a(4) step by simp
      ultimately show ?thesis by blast
    qed
  next
    case False
    then have step: "?f b (x # xs) = ?f b xs"
      using reduceBest_dist [OF Cons.prems(2) x] by simp
    from Cons.IH [OF xs Cons.prems(2)] show ?thesis
    proof (elim disjE conjE exE)
      assume "?f b xs = b" "\<forall>y \<in> set xs. ?d b \<le> ?d y"
      then show ?thesis using False step by simp
    next
      fix ys zs
      assume a: "xs = ys @ ?f b xs # zs" "?d (?f b xs) < ?d b"
        "\<forall>y \<in> set ys. ?d (?f b xs) < ?d y" "\<forall>z \<in> set zs. ?d (?f b xs) \<le> ?d z"
      have "x # xs = (x # ys) @ ?f b (x # xs) # zs" using a(1) step by simp
      moreover have "?d (?f b (x # xs)) < ?d b" using a(2) step by simp
      moreover have "\<forall>y \<in> set (x # ys). ?d (?f b (x # xs)) < ?d y"
        using a(2,3) False step by simp
      moreover have "\<forall>z \<in> set zs. ?d (?f b (x # xs)) \<le> ?d z" using a(4) step by simp
      ultimately show ?thesis by blast
    qed
  qed
qed

lemma selectExpiration_None_iff:
  "selectExpiration getTime today cfg exps = None
     \<longleftrightarrow> validExpirations getTime today cfg exps = []"
  by (simp add: selectExpiration_def split: list.splits)

lemma selectExpiration_first_min:
  assumes "selectExpiration getTime today cfg exps = Some best"
  shows "\<exists>ys zs. validExpirations getTime today cfg exps = ys @ best # zs
          \<and> (\<forall>y \<in> set ys. dteDistance getTime today cfg best < dteDistance getTime today cfg y)
          \<and> (\<forall>z \<in> set zs. dteDistance getTime today cfg best \<le> dteDistance getTime today cfg z)"
proof -
  let ?d = "dteDistance getTime today cfg"
  let ?f = "foldl (reduceBest getTime today cfg)"
  obtain v vs where v: "validExpirations getTime today cfg exps = v # vs"
    and best: "best = ?f v (v # vs)"
    using assms by (auto simp: selectExpiration_def split: list.splits)
  have some: "\<forall>x \<in> set (v # vs). dte getTime today x \<noteq> None"
    using validExpirations_set [of _ getTime today cfg exps] unfolding v by auto
  then have sv: "dte getTime today v \<noteq> None"
    and svs: "\<forall>x \<in> set vs. dte getTime today x \<noteq> None"
    by simp_all
  have best': "best = ?f v vs" using best by (simp add: reduceBest_self)
  from foldl_reduceBest [OF svs sv, of cfg] show ?thesis
  proof (elim disjE conjE exE)
    assume "?f v vs = v" "\<forall>x \<in> set vs. ?d v \<le> ?d x"
    then have "v # vs = [] @ best # vs \<and> (\<forall>z \<in> set vs. ?d best \<le> ?d z)"
      using best' by simp
    then show ?thesis unfolding v by (metis empty_iff list.set(1))
  next
    fix ys zs
    assume a: "vs = ys @ ?f v vs # zs" "?d (?f v vs) < ?d v"
        "\<forall>y \<in> set ys. ?d (?f v vs) < ?d y" "\<forall>z \<in> set zs. ?d (?f v vs) \<le> ?d z"
    have "v # vs = (v # ys) @ best # zs" using a(1) best' by simp
    moreover have "\<forall>y \<in> set (v # ys). ?d best < ?d y" using a(2,3) best' by simp
    moreover have "\<forall>z \<in> set zs. ?d best \<le> ?d z" using a(4) best' by simp
    ultimately show ?thesis unfolding v by blast
  qed
qed

section \<open>One candidate\<close>

lemma qualifyCandidate_no_snapshot:
  "qualifyCandidate cfg direction equity bestExpiration contract None = None"
  by (simp add: qualifyCandidate_def)

lemma qualifyCandidate_eq:
  "qualifyCandidate cfg direction equity bestExpiration contract (Some snap) =
     (if gatesBeforeSizing cfg snap
         \<and> 1 \<le> sizing equity cfg ((snapshotBid snap + snapshotAsk snap) / 2)
      then Some \<lparr>symbol = contract_symbol contract,
                 strike = contract_strike contract,
                 expiration = bestExpiration,
                 delta = the (snapshotDelta snap),
                 mid_price = (snapshotBid snap + snapshotAsk snap) / 2,
                 max_contracts = sizing equity cfg ((snapshotBid snap + snapshotAsk snap) / 2),
                 option_type = (if direction = Bullish then Call else Put)\<rparr>
      else None)"
  by (auto simp: qualifyCandidate_def gatesBeforeSizing_def snapshotDelta_def snapshotBid_def
        snapshotAsk_def sizing_def Let_def split: option.splits)


lemma sizing_pos_mid_pos:
  assumes "1 \<le> sizing equity cfg m" "0 < equity" "0 \<le> options_max_pct_per_trade cfg"
  shows "0 < m"
proof (rule ccontr)
  assume "\<not> 0 < m"
  then have m: "m * 100 \<le> 0" by simp
  have "0 \<le> equity * options_max_pct_per_trade cfg" using assms(2,3) by simp
  then have "equity * options_max_pct_per_trade cfg / (m * 100) \<le> 0"
    using m by (rule divide_nonneg_nonpos)
  then have "sizing equity cfg m \<le> 0" unfolding sizing_def by (simp add: floor_le_iff)
  with assms(1) show False by simp
qed

section \<open>State bookkeeping\<close>

lemma await_eq:
  assumes "f (world st) = (r, w)"
  shows "await c f st = (r, called [c] w st)"
  using assms by (simp add: await_def called_def)

lemma called_simps:
  "world (called cs w st) = w"
  "trace (called cs w st) = trace st @ cs"
  "logs (called cs w st) = logs st"
  "called cs w (called ds v st) = called (ds @ cs) w st"
  by (simp_all add: called_def)

lemma logEvent_simps:
  "world (logEvent ev st) = world st"
  "trace (logEvent ev st) = trace st"
  "logs (logEvent ev st) = logs st @ [ev]"
  by (simp_all add: logEvent_def)

section \<open>The loop in closed form\<close>

lemma length_probes: "length (probes alpaca cs w) = length cs"
  by (induction cs arbitrary: w) (auto split: prod.splits)

lemma qualifyLoop_Nil:
  "qualifyLoop alpaca cfg direction equity bestExpiration [] st = (Inr None, st)"
  by simp

lemma qualifyLoop_throw:
  assumes "options_getSnapshot alpaca (contract_symbol c) (world st) = (Inl e, w)"
  shows "qualifyLoop alpaca cfg direction equity bestExpiration (c # cs) st
     = (Inl e, called [probeCall c] w st)"
  using assms by (simp add: await_def called_def probeCall_def)

lemma qualifyLoop_reject:
  assumes "options_getSnapshot alpaca (contract_symbol c) (world st) = (Inr s, w)"
    and "qualifyCandidate cfg direction equity bestExpiration c s = None"
  shows "qualifyLoop alpaca cfg direction equity bestExpiration (c # cs) st
     = qualifyLoop alpaca cfg direction equity bestExpiration cs (called [probeCall c] w st)"
  using assms by (simp add: await_def called_def probeCall_def)

lemma qualifyLoop_accept:
  assumes "options_getSnapshot alpaca (contract_symbol c) (world st) = (Inr s, w)"
    and "qualifyCandidate cfg direction equity bestExpiration c s = Some r"
  shows "qualifyLoop alpaca cfg direction equity bestExpiration (c # cs) st
     = (Inr (Some r), logEvent ''contract_selected'' (called [probeCall c] w st))"
  using assms by (simp add: await_def called_def probeCall_def)

lemma qualifyLoop_result:
  "fst (qualifyLoop alpaca cfg direction equity bestExpiration cs st) =
     outcome cfg direction equity bestExpiration
       (dropWhile (rejected cfg direction equity bestExpiration)
          (zip cs (probes alpaca cs (world st))))"
proof (induction cs arbitrary: st)
  case Nil
  then show ?case by (simp add: outcome_def)
next
  case (Cons c cs)
  obtain r w where p: "options_getSnapshot alpaca (contract_symbol c) (world st) = (r, w)"
    by (cases "options_getSnapshot alpaca (contract_symbol c) (world st)")
  show ?case
  proof (cases r)
    case (Inl e)
    then show ?thesis
      using p qualifyLoop_throw [of alpaca c st e w] by (simp add: rejected_def outcome_def)
  next
    case (Inr s)
    show ?thesis
    proof (cases "qualifyCandidate cfg direction equity bestExpiration c s")
      case None
      then show ?thesis
        using p Inr Cons.IH [of "called [probeCall c] w st"]
          qualifyLoop_reject [of alpaca c st s w cfg direction equity bestExpiration cs]
        by (simp add: rejected_def called_simps)
    next
      case (Some res)
      then show ?thesis
        using p Inr qualifyLoop_accept [of alpaca c st s w cfg direction equity bestExpiration res cs]
        by (simp add: rejected_def outcome_def)
    qed
  qed
qed

lemma qualifyLoop_trace:
  "trace (snd (qualifyLoop alpaca cfg direction equity bestExpiration cs st)) =
     trace st @ map (\<lambda>p. probeCall (fst p))
       (takeWhile (rejected cfg direction equity bestExpiration)
          (zip cs (probes alpaca cs (world st)))
        @ take 1 (dropWhile (rejected cfg direction equity bestExpiration)
            (zip cs (probes alpaca cs (world st)))))"
proof (induction cs arbitrary: st)
  case Nil
  then show ?case by simp
next
  case (Cons c cs)
  obtain r w where p: "options_getSnapshot alpaca (contract_symbol c) (world st) = (r, w)"
    by (cases "options_getSnapshot alpaca (contract_symbol c) (world st)")
  show ?case
  proof (cases r)
    case (Inl e)
    then show ?thesis
      using p qualifyLoop_throw [of alpaca c st e w]
      by (simp add: rejected_def called_simps)
  next
    case (Inr s)
    show ?thesis
    proof (cases "qualifyCandidate cfg direction equity bestExpiration c s")
      case None
      then show ?thesis
        using p Inr Cons.IH [of "called [probeCall c] w st"]
          qualifyLoop_reject [of alpaca c st s w cfg direction equity bestExpiration cs]
        by (simp add: rejected_def called_simps)
    next
      case (Some res)
      then show ?thesis
        using p Inr qualifyLoop_accept [of alpaca c st s w cfg direction equity bestExpiration res cs]
        by (simp add: rejected_def called_simps logEvent_simps)
    qed
  qed
qed

lemma takeWhile_one_more:
  "takeWhile P xs @ take 1 (dropWhile P xs) = take (Suc (length (takeWhile P xs))) xs"
  by (induction xs) auto

lemma dropWhile_Cons_nth:
  "dropWhile P xs = p # rest
     \<Longrightarrow> length (takeWhile P xs) < length xs \<and> p = xs ! length (takeWhile P xs)"
  by (induction xs) (auto split: if_splits)

lemma take_zip_fst:
  "length ys = length xs \<Longrightarrow> map fst (take k (zip xs ys)) = take k xs"
  by (simp add: take_zip [symmetric] take_map [symmetric])

text \<open>The probes are the symbols of a prefix of the candidates, in their order.\<close>

lemma qualifyLoop_trace_prefix:
  "\<exists>k \<le> length cs.
     trace (snd (qualifyLoop alpaca cfg direction equity bestExpiration cs st))
       = trace st @ map probeCall (take k cs)
     \<and> (\<forall>r. fst (qualifyLoop alpaca cfg direction equity bestExpiration cs st) = Inr (Some r)
          \<longrightarrow> 0 < k \<and> symbol r = contract_symbol (cs ! (k - 1)))"
proof -
  let ?rej = "rejected cfg direction equity bestExpiration"
  let ?ps = "zip cs (probes alpaca cs (world st))"
  let ?n = "length (takeWhile ?rej ?ps)"
  let ?k = "min (Suc ?n) (length cs)"
  have len: "length ?ps = length cs" by (simp add: length_probes)
  have "map (\<lambda>p. probeCall (fst p)) (takeWhile ?rej ?ps @ take 1 (dropWhile ?rej ?ps))
      = map probeCall (map fst (take (Suc ?n) ?ps))"
    by (simp only: takeWhile_one_more map_map o_def)
  also have "\<dots> = map probeCall (take (Suc ?n) cs)"
    by (simp add: take_zip_fst length_probes)
  also have "\<dots> = map probeCall (take ?k cs)" by (simp add: min_def)
  finally have tr: "trace (snd (qualifyLoop alpaca cfg direction equity bestExpiration cs st))
      = trace st @ map probeCall (take ?k cs)"
    by (simp only: qualifyLoop_trace)
  have sel: "0 < ?k \<and> symbol r = contract_symbol (cs ! (?k - 1))"
    if r: "fst (qualifyLoop alpaca cfg direction equity bestExpiration cs st) = Inr (Some r)" for r
  proof -
    from r have o: "outcome cfg direction equity bestExpiration (dropWhile ?rej ?ps) = Inr (Some r)"
      by (simp only: qualifyLoop_result)
    then obtain p rest where d: "dropWhile ?rej ?ps = p # rest"
      by (cases "dropWhile ?rej ?ps") (simp_all add: outcome_def)
    from o d obtain s where s: "snd p = Inr s"
      and q: "qualifyCandidate cfg direction equity bestExpiration (fst p) s = Some r"
      by (auto simp: outcome_def split: sum.splits)
    have n: "?n < length ?ps" and "p = ?ps ! ?n"
      using dropWhile_Cons_nth [OF d] by simp_all
    then have "fst p = cs ! ?n" using n len by simp
    moreover have "symbol r = contract_symbol (fst p)"
      using q by (cases s) (auto simp: qualifyCandidate_no_snapshot qualifyCandidate_eq split: if_splits)
    moreover have "?k = Suc ?n" using n len by simp
    ultimately show ?thesis by simp
  qed
  show ?thesis using tr sel by (intro exI [of _ ?k]) simp
qed


section \<open>The pipeline stage by stage\<close>


lemma handlerCompletes_Thrown:
  "handlerCompletes rt (Thrown message) \<longleftrightarrow> ctx_log_error rt message = None"
  by (simp add: handlerCompletes_def)


lemma catchHandler_fails:
  "\<not> handlerCompletes rt e \<Longrightarrow> \<exists>e'. catchHandler rt e st = (Inl e', st)"
  by (auto simp: handlerCompletes_def catchHandler_def split: sum.splits option.splits)

lemma catchHandler_state:
  "world (snd (catchHandler rt e st)) = world st" "trace (snd (catchHandler rt e st)) = trace st"
  by (auto simp: catchHandler_def logEvent_simps split: sum.splits option.splits)



lemma findBestOptionsContract_returned:
  assumes "options_enabled cfg" "tryBody rt cfg symbol' direction equity st = (Inr r, st')"
  shows "findBestOptionsContract rt cfg symbol' direction equity st = (Inr r, st')"
  using assms by (simp add: findBestOptionsContract_def)



lemma findBestOptionsContract_trace:
  "trace (snd (findBestOptionsContract rt cfg symbol' direction equity st))
     = (if options_enabled cfg then trace (snd (tryBody rt cfg symbol' direction equity st))
        else trace st)"
  by (auto simp: findBestOptionsContract_def catchHandler_state split: prod.splits sum.splits)

lemma tryBody_no_providers:
  "createAlpacaProviders rt = Inl e \<Longrightarrow> tryBody rt cfg symbol' direction equity st = (Inl e, st)"
  by (simp add: tryBody_def)

lemma tryBody_expirations_throw:
  assumes "createAlpacaProviders rt = Inr alpaca"
    and "options_getExpirations alpaca symbol' (world st) = (Inl e, w1)"
  shows "tryBody rt cfg symbol' direction equity st = (Inl e, called [GetExpirations symbol'] w1 st)"
  using assms by (simp add: tryBody_def await_eq)

lemma tryBody_no_expirations:
  assumes "createAlpacaProviders rt = Inr alpaca"
    and "options_getExpirations alpaca symbol' (world st) = (Inr exps, w1)"
    and "exps = None \<or> exps = Some []"
  shows "tryBody rt cfg symbol' direction equity st
     = (Inr None, logEvent ''no_expirations'' (called [GetExpirations symbol'] w1 st))"
  using assms by (auto simp: tryBody_def await_eq)

lemma tryBody_no_valid_expirations:
  assumes "createAlpacaProviders rt = Inr alpaca"
    and "options_getExpirations alpaca symbol' (world st) = (Inr (Some exps), w1)"
    and "exps \<noteq> []"
    and "validExpirations (Date_getTime rt) (Date_now rt) cfg exps = []"
  shows "tryBody rt cfg symbol' direction equity st
     = (Inr None, logEvent ''no_valid_expirations'' (called [GetExpirations symbol'] w1 st))"
  using assms by (simp add: tryBody_def await_eq selectExpiration_None_iff [THEN iffD2])

lemma selectExpiration_Some_nonempty:
  "selectExpiration getTime today cfg exps = Some best \<Longrightarrow> exps \<noteq> []"
  by (auto simp: selectExpiration_def validExpirations_def)

lemma tryBody_selected:
  assumes "createAlpacaProviders rt = Inr alpaca"
    and "options_getExpirations alpaca symbol' (world st) = (Inr (Some exps), w1)"
    and "selectExpiration (Date_getTime rt) (Date_now rt) cfg exps = Some best"
  shows "tryBody rt cfg symbol' direction equity st
     = fetchChain alpaca cfg symbol' direction equity best (called [GetExpirations symbol'] w1 st)"
  using assms selectExpiration_Some_nonempty [OF assms(3)]
  by (simp add: tryBody_def await_eq)

lemma fetchChain_throw:
  assumes "options_getChain alpaca symbol' best (world st) = (Inl e, w2)"
  shows "fetchChain alpaca cfg symbol' direction equity best st
     = (Inl e, called [GetChain symbol' best] w2 st)"
  using assms by (simp add: fetchChain_def await_eq)

lemma fetchChain_no_chain:
  assumes "options_getChain alpaca symbol' best (world st) = (Inr None, w2)"
  shows "fetchChain alpaca cfg symbol' direction equity best st
     = (Inr None, logEvent ''chain_failed'' (called [GetChain symbol' best] w2 st))"
  using assms by (simp add: fetchChain_def await_eq)

lemma fetchChain_no_contracts:
  assumes "options_getChain alpaca symbol' best (world st) = (Inr (Some ch), w2)"
    and "(if direction = Bullish then calls ch else puts ch) = None
       \<or> (if direction = Bullish then calls ch else puts ch) = Some []"
  shows "fetchChain alpaca cfg symbol' direction equity best st
     = (Inr None, logEvent ''no_contracts'' (called [GetChain symbol' best] w2 st))"
  using assms by (auto simp: fetchChain_def await_eq)

lemma fetchChain_contracts:
  assumes "options_getChain alpaca symbol' best (world st) = (Inr (Some ch), w2)"
    and "(if direction = Bullish then calls ch else puts ch) = Some contracts"
    and "contracts \<noteq> []"
    and "marketData_getSnapshot alpaca symbol' w2 = (r, w3)"
  shows "fetchChain alpaca cfg symbol' direction equity best st
     = rankAndQualify alpaca cfg direction equity best contracts
         (case r of Inl e \<Rightarrow> None | Inr snapshot \<Rightarrow> snapshot)
         (called [GetChain symbol' best, GetStockSnapshot symbol'] w3 st)"
proof -
  have "await (GetStockSnapshot symbol') (marketData_getSnapshot alpaca symbol')
          (called [GetChain symbol' best] w2 st)
      = (r, called [GetChain symbol' best, GetStockSnapshot symbol'] w3 st)"
    using assms(4) by (simp add: await_eq called_simps)
  then show ?thesis
    using assms(1-3) by (auto simp: fetchChain_def await_eq)
qed

text \<open>The run up to the ranking, when every stage before it delivered.\<close>

lemma tryBody_ranked:
  assumes "createAlpacaProviders rt = Inr alpaca"
    and "options_getExpirations alpaca symbol' (world st) = (Inr (Some exps), w1)"
    and "selectExpiration (Date_getTime rt) (Date_now rt) cfg exps = Some best"
    and "options_getChain alpaca symbol' best w1 = (Inr (Some ch), w2)"
    and "(if direction = Bullish then calls ch else puts ch) = Some contracts"
    and "contracts \<noteq> []"
    and "marketData_getSnapshot alpaca symbol' w2 = (r, w3)"
  shows "tryBody rt cfg symbol' direction equity st
     = rankAndQualify alpaca cfg direction equity best contracts
         (case r of Inl e \<Rightarrow> None | Inr snapshot \<Rightarrow> snapshot)
         (called [GetExpirations symbol', GetChain symbol' best, GetStockSnapshot symbol'] w3 st)"
proof -
  have "options_getChain alpaca symbol' best (world (called [GetExpirations symbol'] w1 st))
      = (Inr (Some ch), w2)"
    using assms(4) by (simp add: called_simps)
  from fetchChain_contracts [OF this assms(5,6,7)] tryBody_selected [OF assms(1,2,3)]
  show ?thesis by (simp add: called_simps)
qed

lemma rankAndQualify_no_price:
  "stockPrice snapshot = 0
     \<Longrightarrow> rankAndQualify alpaca cfg direction equity best contracts snapshot st = (Inr None, st)"
  by (simp add: rankAndQualify_def)

lemma rankAndQualify_priced:
  "stockPrice snapshot \<noteq> 0
     \<Longrightarrow> rankAndQualify alpaca cfg direction equity best contracts snapshot st
       = qualifyLoop alpaca cfg direction equity best
           (take 5 (sortedContracts contracts
              (targetStrike direction (stockPrice snapshot) (options_target_delta cfg)))) st"
  by (simp add: rankAndQualify_def)

section \<open>What a returned contract went through\<close>





section \<open>The provider calls of one invocation\<close>

lemma rankAndQualify_trace:
  "\<exists>syms. length syms \<le> 5
     \<and> trace (snd (rankAndQualify alpaca cfg direction equity best contracts snapshot st))
         = trace st @ map GetOptionSnapshot syms"
proof (cases "stockPrice snapshot = 0")
  case True
  then have "trace (snd (rankAndQualify alpaca cfg direction equity best contracts snapshot st))
      = trace st @ map GetOptionSnapshot []"
    by (simp add: rankAndQualify_no_price)
  then show ?thesis by (metis le0 list.size(3))
next
  case False
  let ?cs = "take 5 (sortedContracts contracts
     (targetStrike direction (stockPrice snapshot) (options_target_delta cfg)))"
  from qualifyLoop_trace_prefix [of ?cs alpaca cfg direction equity best st]
  obtain k where k: "k \<le> length ?cs"
    and t: "trace (snd (qualifyLoop alpaca cfg direction equity best ?cs st))
       = trace st @ map probeCall (take k ?cs)"
    by blast
  have "map probeCall (take k ?cs) = map GetOptionSnapshot (map contract_symbol (take k ?cs))"
    by (simp add: probeCall_def)
  moreover have "length (map contract_symbol (take k ?cs)) \<le> 5" by simp
  ultimately show ?thesis
    using t False by (metis rankAndQualify_priced)
qed

lemma fetchChain_trace:
  "\<exists>syms rest. length syms \<le> 5
     \<and> trace (snd (fetchChain alpaca cfg symbol' direction equity best st)) @ rest
         = trace st @ [GetChain symbol' best, GetStockSnapshot symbol']
             @ map GetOptionSnapshot syms"
proof -
  let ?run = "fetchChain alpaca cfg symbol' direction equity best st"
  obtain r w2 where c: "options_getChain alpaca symbol' best (world st) = (r, w2)"
    by (cases "options_getChain alpaca symbol' best (world st)")
  obtain r3 w3 where u: "marketData_getSnapshot alpaca symbol' w2 = (r3, w3)"
    by (cases "marketData_getSnapshot alpaca symbol' w2")
  have short: ?thesis if "trace (snd ?run) = trace st @ [GetChain symbol' best]"
  proof -
    from that have "length ([] :: string list) \<le> 5
      \<and> trace (snd ?run) @ [GetStockSnapshot symbol']
         = trace st @ [GetChain symbol' best, GetStockSnapshot symbol'] @ map GetOptionSnapshot []"
      by simp
    then show ?thesis by blast
  qed
  show ?thesis
  proof (cases r)
    case (Inl e)
    then show ?thesis
      using c by (intro short) (simp add: fetchChain_throw called_simps)
  next
    case (Inr chOpt)
    show ?thesis
    proof (cases chOpt)
      case None
      then show ?thesis
        using c Inr by (intro short) (simp add: fetchChain_no_chain called_simps logEvent_simps)
    next
      case (Some ch)
      let ?side = "if direction = Bullish then calls ch else puts ch"
      show ?thesis
      proof (cases "?side = None \<or> ?side = Some []")
        case True
        from c Inr Some have "options_getChain alpaca symbol' best (world st) = (Inr (Some ch), w2)"
          by simp
        from fetchChain_no_contracts [OF this True, of cfg equity] show ?thesis
          by (intro short) (simp add: called_simps logEvent_simps)
      next
        case False
        then obtain contracts where s: "?side = Some contracts" and ne: "contracts \<noteq> []"
          by (cases ?side) auto
        from c Inr Some have g: "options_getChain alpaca symbol' best (world st) = (Inr (Some ch), w2)"
          by simp
        let ?st3 = "called [GetChain symbol' best, GetStockSnapshot symbol'] w3 st"
        let ?snap = "case r3 of Inl e \<Rightarrow> None | Inr snapshot \<Rightarrow> snapshot"
        have run: "?run = rankAndQualify alpaca cfg direction equity best contracts ?snap ?st3"
          by (rule fetchChain_contracts [OF g s ne u])
        from rankAndQualify_trace [of alpaca cfg direction equity best contracts ?snap ?st3]
        obtain syms where "length syms \<le> 5"
          and "trace (snd ?run) = trace ?st3 @ map GetOptionSnapshot syms"
          unfolding run by blast
        then have "length syms \<le> 5 \<and> trace (snd ?run) @ []
           = trace st @ [GetChain symbol' best, GetStockSnapshot symbol'] @ map GetOptionSnapshot syms"
          by (simp add: called_simps)
        then show ?thesis by blast
      qed
    qed
  qed
qed

lemma tryBody_trace:
  "\<exists>best syms rest. length syms \<le> 5
     \<and> trace (snd (tryBody rt cfg symbol' direction equity st)) @ rest
         = trace st @ [GetExpirations symbol', GetChain symbol' best, GetStockSnapshot symbol']
             @ map GetOptionSnapshot syms"
proof -
  let ?run = "tryBody rt cfg symbol' direction equity st"
  have short: ?thesis
    if "trace (snd ?run) = trace st \<or> trace (snd ?run) = trace st @ [GetExpirations symbol']"
  proof -
    from that have "length ([] :: string list) \<le> 5 \<and>
      (trace (snd ?run) @ [GetExpirations symbol', GetChain symbol' [], GetStockSnapshot symbol']
         = trace st @ [GetExpirations symbol', GetChain symbol' [], GetStockSnapshot symbol']
             @ map GetOptionSnapshot []
       \<or> trace (snd ?run) @ [GetChain symbol' [], GetStockSnapshot symbol']
         = trace st @ [GetExpirations symbol', GetChain symbol' [], GetStockSnapshot symbol']
             @ map GetOptionSnapshot [])"
      by auto
    then show ?thesis by blast
  qed
  show ?thesis
  proof (cases "createAlpacaProviders rt")
    case (Inl e)
    then show ?thesis by (intro short) (simp add: tryBody_no_providers)
  next
    case (Inr alpaca)
    obtain r w1 where g: "options_getExpirations alpaca symbol' (world st) = (r, w1)"
      by (cases "options_getExpirations alpaca symbol' (world st)")
    show ?thesis
    proof (cases r)
      case (Inl e)
      then show ?thesis
        using tryBody_expirations_throw [OF Inr, of symbol' st e w1 cfg direction equity] g
        by (intro short) (simp add: called_simps)
    next
      case r: (Inr expsOpt)
      show ?thesis
      proof (cases "expsOpt = None \<or> expsOpt = Some []")
        case True
        from g r have "options_getExpirations alpaca symbol' (world st) = (Inr expsOpt, w1)"
          by simp
        from tryBody_no_expirations [OF Inr this True, of cfg direction equity]
        show ?thesis by (intro short) (simp add: called_simps logEvent_simps)
      next
        case False
        then obtain exps where e: "expsOpt = Some exps" and ne: "exps \<noteq> []"
          by (cases expsOpt) auto
        from g r e have g': "options_getExpirations alpaca symbol' (world st) = (Inr (Some exps), w1)"
          by simp
        show ?thesis
        proof (cases "selectExpiration (Date_getTime rt) (Date_now rt) cfg exps")
          case None
          then have "validExpirations (Date_getTime rt) (Date_now rt) cfg exps = []"
            by (simp add: selectExpiration_None_iff)
          from tryBody_no_valid_expirations [OF Inr g' ne this, of direction equity]
          show ?thesis by (intro short) (simp add: called_simps logEvent_simps)
        next
          case (Some best)
          let ?st1 = "called [GetExpirations symbol'] w1 st"
          have run: "?run = fetchChain alpaca cfg symbol' direction equity best ?st1"
            by (rule tryBody_selected [OF Inr g' Some])
          from fetchChain_trace [of alpaca cfg symbol' direction equity best ?st1]
          obtain syms rest where "length syms \<le> 5"
            and "trace (snd ?run) @ rest = trace ?st1
               @ [GetChain symbol' best, GetStockSnapshot symbol'] @ map GetOptionSnapshot syms"
            unfolding run by blast
          then have "length syms \<le> 5 \<and> trace (snd ?run) @ rest = trace st
             @ [GetExpirations symbol', GetChain symbol' best, GetStockSnapshot symbol']
             @ map GetOptionSnapshot syms"
            by (simp add: called_simps)
          then show ?thesis by blast
        qed
      qed
    qed
  qed
qed

lemma findBestOptionsContract_trace_shape:
  "\<exists>best syms rest. length syms \<le> 5
     \<and> trace (snd (findBestOptionsContract rt cfg symbol' direction equity st)) @ rest
         = trace st @ [GetExpirations symbol', GetChain symbol' best, GetStockSnapshot symbol']
             @ map GetOptionSnapshot syms"
proof (cases "options_enabled cfg")
  case True
  then show ?thesis
    using tryBody_trace [of rt cfg symbol' direction equity st]
    by (simp add: findBestOptionsContract_trace)
next
  case False
  then have "length ([] :: string list) \<le> 5 \<and>
    trace (snd (findBestOptionsContract rt cfg symbol' direction equity st))
       @ [GetExpirations symbol', GetChain symbol' [], GetStockSnapshot symbol']
     = trace st @ [GetExpirations symbol', GetChain symbol' [], GetStockSnapshot symbol']
         @ map GetOptionSnapshot []"
    by (simp add: findBestOptionsContract_trace)
  then show ?thesis by blast
qed

section \<open>The concrete market, evaluated\<close>

lemma demoConfig_simps:
  "options_enabled demoConfig = True" "options_min_dte demoConfig = 7"
  "options_max_dte demoConfig = 21" "options_target_delta demoConfig = 0.7"
  "options_min_delta demoConfig = 0.3" "options_max_delta demoConfig = 0.8"
  "options_max_pct_per_trade demoConfig = 0.05"
  by (simp_all add: demoConfig_def)

lemma demoRuntime_simps:
  "createAlpacaProviders (demoRuntime failAt stock) = Inr (demoAlpaca failAt stock)"
  "Date_getTime (demoRuntime failAt stock) = demoGetTime"
  "Date_now (demoRuntime failAt stock) = demoToday"
  by (simp_all add: demoRuntime_def)

lemma demoAlpaca_simps:
  "options_getExpirations (demoAlpaca failAt stock) s w =
     (if w = failAt then Inl (Thrown ''timeout'') else Inr (Some demoExpirations), Suc w)"
  "options_getChain (demoAlpaca failAt stock) s e w =
     (if w = failAt then Inl (Thrown ''timeout'')
      else Inr (Some \<lparr>calls = Some demoCalls, puts = Some []\<rparr>), Suc w)"
  "marketData_getSnapshot (demoAlpaca failAt stock) s w =
     (if w = failAt then Inl (Thrown ''timeout'') else Inr stock, Suc w)"
  "options_getSnapshot (demoAlpaca failAt stock) s w =
     (if w = failAt then Inl (Thrown ''timeout'') else Inr (demoSnapshot s), Suc w)"
  by (simp_all add: demoAlpaca_def)

lemma demoState_simps: "world demoState = 0" "trace demoState = []" "logs demoState = []"
  by (simp_all add: demoState_def)

lemma demo_dte:
  "dte demoGetTime demoToday ''2026-01-31'' = Some 30"
  "dte demoGetTime demoToday ''2026-01-11'' = Some 10"
  "dte demoGetTime demoToday ''soon'' = None"
  "dte demoGetTime demoToday ''2026-01-19'' = Some 18"
  "dte demoGetTime demoToday ''2026-01-01T16:00:00Z'' = Some 1"
  by (simp_all add: dte_def demoGetTime_def demoToday_def msPerDay_def ceiling_eq_iff)

lemma demo_valid:
  "validExpirations demoGetTime demoToday demoConfig demoExpirations
     = [''2026-01-11'', ''2026-01-19'']"
  by (simp add: validExpirations_def dteInWindow_def demo_dte demoExpirations_def demoConfig_simps)

lemma demo_select:
  "selectExpiration demoGetTime demoToday demoConfig demoExpirations = Some ''2026-01-11''"
  unfolding selectExpiration_def demo_valid
  by (simp add: reduceBest_def closerDTE_def targetDTE_def demo_dte demoConfig_simps)

lemma demo_nonempty: "demoExpirations \<noteq> []" "demoCalls \<noteq> []"
  by (simp_all add: demoExpirations_def demoCalls_def)

lemma demo_sorted: "sortedContracts demoCalls 96 = demoRanked"
  by (simp add: sortedContracts_def strikeDistance_def demoCalls_def demoRanked_def)

lemma demo_stock: "stockPrice demoStock = 100" "stockPrice demoNoPrice = 0" "stockPrice None = 0"
  by (simp_all add: stockPrice_def js_or_def demoStock_def demoNoPrice_def)

lemma demo_target: "targetStrike Bullish 100 (7 / 10) = 96"
  by (simp add: targetStrike_def)

lemma demo_gates:
  "gatesBeforeSizing demoConfig demoWide = False"
  "gatesBeforeSizing demoConfig demoDear = True"
  "gatesBeforeSizing demoConfig demoGood = True"
  by (simp_all add: gatesBeforeSizing_def snapshotDelta_def snapshotBid_def snapshotAsk_def
      js_or_def demoWide_def demoDear_def demoGood_def demoConfig_simps)

lemma demo_quotes:
  "snapshotBid demoWide = 4" "snapshotAsk demoWide = 5"
  "(snapshotBid demoDear + snapshotAsk demoDear) / 2 = 6"
  "(snapshotBid demoGood + snapshotAsk demoGood) / 2 = 24 / 5"
  "snapshotDelta demoWide = Some (3 / 5)"
  "snapshotDelta demoDear = Some (7 / 10)"
  "snapshotDelta demoGood = Some (11 / 20)"
  by (simp_all add: snapshotBid_def snapshotAsk_def snapshotDelta_def js_or_def
      demoWide_def demoDear_def demoGood_def)

lemma demo_sizing:
  "sizing 10000 demoConfig 6 = 0" "sizing 10000 demoConfig (24 / 5) = 1"
  by (simp_all add: sizing_def demoConfig_simps)

lemma demo_qualify:
  "qualifyCandidate demoConfig Bullish 10000 e c (Some demoWide) = None"
  "qualifyCandidate demoConfig Bullish 10000 e c (Some demoDear) = None"
  "qualifyCandidate demoConfig Bullish 10000 e c (Some demoGood)
     = Some \<lparr>symbol = contract_symbol c, strike = contract_strike c, expiration = e,
             delta = 11 / 20, mid_price = 24 / 5, max_contracts = 1, option_type = Call\<rparr>"
  by (simp_all add: qualifyCandidate_eq demo_gates demo_quotes demo_sizing)

lemma demo_loop:
  "qualifyLoop (demoAlpaca 99 stock) demoConfig Bullish 10000 e (take 5 demoRanked)
       \<lparr>world = 3, trace = tr, logs = lg\<rparr>
     = (Inr (Some \<lparr>symbol = ''C100'', strike = 100, expiration = e,
             delta = 0.55, mid_price = 4.8, max_contracts = 1, option_type = Call\<rparr>),
        \<lparr>world = 6,
         trace = tr @ [GetOptionSnapshot ''C98'', GetOptionSnapshot ''C94'', GetOptionSnapshot ''C100''],
         logs = lg @ [''contract_selected'']\<rparr>)"
  by (simp add: demoRanked_def await_def logEvent_def demoAlpaca_simps demoSnapshot_def demo_qualify)

lemma demo_run:
  "findBestOptionsContract (demoRuntime 99 demoStock) demoConfig ''SPY'' Bullish 10000 demoState
     = (Inr (Some \<lparr>symbol = ''C100'', strike = 100, expiration = ''2026-01-11'',
             delta = 0.55, mid_price = 4.8, max_contracts = 1, option_type = Call\<rparr>),
        \<lparr>world = 6,
         trace = [GetExpirations ''SPY'', GetChain ''SPY'' ''2026-01-11'', GetStockSnapshot ''SPY'',
           GetOptionSnapshot ''C98'', GetOptionSnapshot ''C94'', GetOptionSnapshot ''C100''],
         logs = [''contract_selected'']\<rparr>)"
proof -
  have "tryBody (demoRuntime 99 demoStock) demoConfig ''SPY'' Bullish 10000 demoState
     = rankAndQualify (demoAlpaca 99 demoStock) demoConfig Bullish 10000 ''2026-01-11'' demoCalls
         demoStock
         (called [GetExpirations ''SPY'', GetChain ''SPY'' ''2026-01-11'', GetStockSnapshot ''SPY'']
            3 demoState)"
    by (rule tryBody_ranked [where exps = demoExpirations and ?w1.0 = 1 and ?w2.0 = 2
          and ch = "\<lparr>calls = Some demoCalls, puts = Some []\<rparr>" and r = "Inr demoStock", simplified])
      (simp_all add: demoRuntime_simps demoAlpaca_simps demoState_simps demo_select demo_nonempty)
  then show ?thesis
    by (simp add: findBestOptionsContract_def demoConfig_simps rankAndQualify_def demo_stock
        demo_target demo_sorted called_def demoState_def demo_loop)
qed

section \<open>The claims\<close>



text \<open>
  C2, as stated: the DTE is \<open>ceil((expiration_midnight - today_midnight) / 1 day)\<close>, both
  instants truncated to midnight. The code truncates neither. An expiration at 16:00 UTC on
  1 January 2026, seen at 09:30 UTC the same day, has DTE 1 in the code and 0 by the
  truncating formula.
\<close>

theorem dte_truncation_counterexample:
  "demoGetTime ''2026-01-01T16:00:00Z'' = Some 1767283200000
   \<and> demoToday = 1767259800000
   \<and> dte demoGetTime demoToday ''2026-01-01T16:00:00Z'' = Some 1
   \<and> truncatedDTE 1767283200000 1767259800000 = 0"
  by (simp add: demo_dte truncatedDTE_eq) (simp add: demoGetTime_def demoToday_def msPerDay_def)

text \<open>
  C2, amended. The DTE is the ceiling of the elapsed time in days between the current
  instant and the instant the expiration string denotes, neither of them truncated. When the
  expiration denotes a UTC midnight (a date-only string) this is the day-granular count
  \<open>ceil((expiration_midnight - today_midnight) / 1 day)\<close> whatever the time of day; an
  expiration on a later calendar day, and any expiration still in the future, has DTE at
  least 1.
\<close>

theorem dte_elapsed_days:
  assumes "getTime e = Some t"
  shows "dte getTime today e = Some \<lceil>real_of_int (t - today) / real_of_int msPerDay\<rceil>
     \<and> (t mod msPerDay = 0 \<longrightarrow> dte getTime today e = Some (truncatedDTE t today))
     \<and> (midnight today < midnight t \<longrightarrow> (\<exists>d. dte getTime today e = Some d \<and> 1 \<le> d))
     \<and> (today < t \<longrightarrow> (\<exists>d. dte getTime today e = Some d \<and> 1 \<le> d))"
proof -
  have d: "dte getTime today e = Some \<lceil>real_of_int (t - today) / real_of_int msPerDay\<rceil>"
    using assms by (simp add: dte_def)
  have "dte getTime today e = Some (truncatedDTE t today)" if "t mod msPerDay = 0"
    using d ceiling_days_at_midnight [OF that, of today] by (simp add: truncatedDTE_eq)
  moreover have "\<exists>d. dte getTime today e = Some d \<and> 1 \<le> d" if "today < t"
    using d ceiling_days_future [OF that] by simp
  moreover have "\<exists>d. dte getTime today e = Some d \<and> 1 \<le> d" if "midnight today < midnight t"
    using d ceiling_days_future [OF midnight_less_imp_less [OF that]] by simp
  ultimately show ?thesis using d by blast
qed

theorem dte_elapsed_days_witness:
  "demoGetTime ''2026-01-11'' = Some (20464 * msPerDay)
   \<and> (20464 * msPerDay) mod msPerDay = 0
   \<and> midnight demoToday < midnight (20464 * msPerDay)
   \<and> demoToday < 20464 * msPerDay
   \<and> dte demoGetTime demoToday ''2026-01-11'' = Some (truncatedDTE (20464 * msPerDay) demoToday)
   \<and> truncatedDTE (20464 * msPerDay) demoToday = 10
   \<and> (\<exists>d. dte demoGetTime demoToday ''2026-01-11'' = Some d \<and> 1 \<le> d)"
proof -
  have g: "demoGetTime ''2026-01-11'' = Some (20464 * msPerDay)"
    by (simp add: demoGetTime_def)
  have m: "(20464 * msPerDay) mod msPerDay = 0" by simp
  have f: "demoToday < 20464 * msPerDay" by (simp add: demoToday_def msPerDay_def)
  have c: "midnight demoToday < midnight (20464 * msPerDay)"
    by (simp add: midnight_def demoToday_def msPerDay_def)
  have v: "truncatedDTE (20464 * msPerDay) demoToday = 10"
    by (simp add: truncatedDTE_eq demoToday_def msPerDay_def)
  show ?thesis
    using dte_elapsed_days [of demoGetTime "''2026-01-11''" "20464 * msPerDay" demoToday] g m f c v
    by blast
qed

text \<open>
  C1. The selector keeps exactly the expirations whose DTE lies in the window, in input
  order. With none left the selection is \<open>None\<close> and the whole function returns null after
  the single expirations call. Otherwise it picks an eligible expiration at minimal distance
  from the real-valued midpoint, and the first such one in input order: everything before
  it is strictly farther, everything after it is at least as far. The chain is then fetched
  for that expiration.
\<close>

theorem expiration_selection:
  fixes rt :: "'w runtime"
  shows
  "validExpirations getTime today cfg exps
     = filter (\<lambda>e. \<exists>d. dte getTime today e = Some d
         \<and> options_min_dte cfg \<le> real_of_int d \<and> real_of_int d \<le> options_max_dte cfg) exps
   \<and> (validExpirations getTime today cfg exps = []
        \<longrightarrow> selectExpiration getTime today cfg exps = None)
   \<and> (validExpirations getTime today cfg exps \<noteq> []
        \<longrightarrow> (\<exists>best ys zs d.
              selectExpiration getTime today cfg exps = Some best
              \<and> validExpirations getTime today cfg exps = ys @ best # zs
              \<and> dte getTime today best = Some d
              \<and> dteDistance getTime today cfg best
                   = \<bar>real_of_int d - (options_min_dte cfg + options_max_dte cfg) / 2\<bar>
              \<and> (\<forall>y \<in> set ys. dteDistance getTime today cfg best
                     < dteDistance getTime today cfg y)
              \<and> (\<forall>z \<in> set zs. dteDistance getTime today cfg best
                     \<le> dteDistance getTime today cfg z)))
   \<and> (options_enabled cfg \<and> createAlpacaProviders rt = Inr alpaca
        \<and> options_getExpirations alpaca symbol' (world st) = (Inr (Some exps'), w1)
        \<and> validExpirations (Date_getTime rt) (Date_now rt) cfg exps' = []
        \<longrightarrow> fst (findBestOptionsContract rt cfg symbol' direction equity st) = Inr None
          \<and> trace (snd (findBestOptionsContract rt cfg symbol' direction equity st))
               = trace st @ [GetExpirations symbol'])
   \<and> (options_enabled cfg \<and> createAlpacaProviders rt = Inr alpaca
        \<and> options_getExpirations alpaca symbol' (world st) = (Inr (Some exps'), w1)
        \<and> selectExpiration (Date_getTime rt) (Date_now rt) cfg exps' = Some best'
        \<longrightarrow> tryBody rt cfg symbol' direction equity st
          = fetchChain alpaca cfg symbol' direction equity best'
              (called [GetExpirations symbol'] w1 st))"
proof -
  let ?valid = "validExpirations getTime today cfg exps"
  let ?dist = "dteDistance getTime today cfg"
  have pick: "\<exists>best ys zs d.
              selectExpiration getTime today cfg exps = Some best
              \<and> ?valid = ys @ best # zs
              \<and> dte getTime today best = Some d
              \<and> ?dist best = \<bar>real_of_int d - (options_min_dte cfg + options_max_dte cfg) / 2\<bar>
              \<and> (\<forall>y \<in> set ys. ?dist best < ?dist y)
              \<and> (\<forall>z \<in> set zs. ?dist best \<le> ?dist z)"
    if ne: "?valid \<noteq> []"
  proof -
    from ne obtain best where b: "selectExpiration getTime today cfg exps = Some best"
      using selectExpiration_None_iff [of getTime today cfg exps] by (metis not_Some_eq)
    from selectExpiration_first_min [OF b] obtain ys zs where
      v: "?valid = ys @ best # zs"
      and y: "\<forall>y \<in> set ys. ?dist best < ?dist y"
      and z: "\<forall>z \<in> set zs. ?dist best \<le> ?dist z"
      by blast
    have "best \<in> set ?valid" using v by simp
    then obtain d where d: "dte getTime today best = Some d"
      using validExpirations_set [of best getTime today cfg exps] by blast
    then have "?dist best = \<bar>real_of_int d - (options_min_dte cfg + options_max_dte cfg) / 2\<bar>"
      by (simp add: dteDistance_def)
    with b v d y z show ?thesis by blast
  qed
  let ?run = "findBestOptionsContract rt cfg symbol' direction equity st"
  have none: "fst ?run = Inr None \<and> trace (snd ?run) = trace st @ [GetExpirations symbol']"
    if en: "options_enabled cfg" and a: "createAlpacaProviders rt = Inr alpaca"
      and g: "options_getExpirations alpaca symbol' (world st) = (Inr (Some exps'), w1)"
      and v: "validExpirations (Date_getTime rt) (Date_now rt) cfg exps' = []"
  proof (cases "exps' = []")
    case True
    with g have "options_getExpirations alpaca symbol' (world st) = (Inr (Some []), w1)" by simp
    from tryBody_no_expirations [OF a this, of cfg direction equity] show ?thesis
      using en by (simp add: findBestOptionsContract_def called_simps logEvent_simps)
  next
    case False
    from tryBody_no_valid_expirations [OF a g False v, of direction equity] show ?thesis
      using en by (simp add: findBestOptionsContract_def called_simps logEvent_simps)
  qed
  have some: "tryBody rt cfg symbol' direction equity st
          = fetchChain alpaca cfg symbol' direction equity best'
              (called [GetExpirations symbol'] w1 st)"
    if "createAlpacaProviders rt = Inr alpaca"
      and "options_getExpirations alpaca symbol' (world st) = (Inr (Some exps'), w1)"
      and "selectExpiration (Date_getTime rt) (Date_now rt) cfg exps' = Some best'"
    using that by (rule tryBody_selected)
  show ?thesis
    using validExpirations_filter [of getTime today cfg exps]
      selectExpiration_None_iff [of getTime today cfg exps] pick none some
    by blast
qed

theorem expiration_selection_witness:
  "validExpirations demoGetTime demoToday demoConfig demoExpirations
     = [''2026-01-11'', ''2026-01-19'']
   \<and> dteDistance demoGetTime demoToday demoConfig ''2026-01-11'' = 4
   \<and> dteDistance demoGetTime demoToday demoConfig ''2026-01-19'' = 4
   \<and> selectExpiration demoGetTime demoToday demoConfig demoExpirations = Some ''2026-01-11''
   \<and> options_enabled demoNarrow
   \<and> createAlpacaProviders (demoRuntime 99 demoStock) = Inr (demoAlpaca 99 demoStock)
   \<and> options_getExpirations (demoAlpaca 99 demoStock) ''SPY'' (world demoState)
        = (Inr (Some demoExpirations), 1)
   \<and> validExpirations demoGetTime demoToday demoNarrow demoExpirations = []
   \<and> selectExpiration demoGetTime demoToday demoNarrow demoExpirations = None
   \<and> fst (findBestOptionsContract (demoRuntime 99 demoStock) demoNarrow ''SPY'' Bullish 10000
        demoState) = Inr None
   \<and> trace (snd (findBestOptionsContract (demoRuntime 99 demoStock) demoNarrow ''SPY'' Bullish
        10000 demoState)) = [GetExpirations ''SPY'']
   \<and> tryBody (demoRuntime 99 demoStock) demoConfig ''SPY'' Bullish 10000 demoState
        = fetchChain (demoAlpaca 99 demoStock) demoConfig ''SPY'' Bullish 10000 ''2026-01-11''
            (called [GetExpirations ''SPY''] 1 demoState)"
proof -
  have v: "validExpirations demoGetTime demoToday demoConfig demoExpirations
     = [''2026-01-11'', ''2026-01-19'']"
    by (rule demo_valid)
  have d: "dteDistance demoGetTime demoToday demoConfig ''2026-01-11'' = 4"
    "dteDistance demoGetTime demoToday demoConfig ''2026-01-19'' = 4"
    by (simp_all add: dteDistance_def demo_dte demoConfig_simps)
  have s: "selectExpiration demoGetTime demoToday demoConfig demoExpirations = Some ''2026-01-11''"
    by (rule demo_select)
  have en: "options_enabled demoNarrow" by (simp add: demoNarrow_def demoConfig_simps)
  have a: "createAlpacaProviders (demoRuntime 99 demoStock) = Inr (demoAlpaca 99 demoStock)"
    by (simp add: demoRuntime_simps)
  have g: "options_getExpirations (demoAlpaca 99 demoStock) ''SPY'' (world demoState)
        = (Inr (Some demoExpirations), 1)"
    by (simp add: demoAlpaca_simps demoState_simps)
  have n: "validExpirations demoGetTime demoToday demoNarrow demoExpirations = []"
    by (simp add: validExpirations_def dteInWindow_def demo_dte demoExpirations_def
        demoNarrow_def demoConfig_simps)
  note narrow = expiration_selection [where getTime = demoGetTime and today = demoToday
      and cfg = demoNarrow and exps = demoExpirations and rt = "demoRuntime 99 demoStock"
      and alpaca = "demoAlpaca 99 demoStock" and symbol' = "''SPY''" and st = demoState
      and exps' = demoExpirations and ?w1.0 = 1 and direction = Bullish and equity = 10000]
  note wide = expiration_selection [where getTime = demoGetTime and today = demoToday
      and cfg = demoConfig and exps = demoExpirations and rt = "demoRuntime 99 demoStock"
      and alpaca = "demoAlpaca 99 demoStock" and symbol' = "''SPY''" and st = demoState
      and exps' = demoExpirations and ?w1.0 = 1 and direction = Bullish and equity = 10000
      and best' = "''2026-01-11''"]
  have n1: "selectExpiration demoGetTime demoToday demoNarrow demoExpirations = None"
    using narrow n by blast
  have n2: "fst (findBestOptionsContract (demoRuntime 99 demoStock) demoNarrow ''SPY'' Bullish
        10000 demoState) = Inr None
     \<and> trace (snd (findBestOptionsContract (demoRuntime 99 demoStock) demoNarrow ''SPY'' Bullish
        10000 demoState)) = [GetExpirations ''SPY'']"
    using narrow en a g n by (simp add: demoRuntime_simps demoState_simps)
  have w: "tryBody (demoRuntime 99 demoStock) demoConfig ''SPY'' Bullish 10000 demoState
        = fetchChain (demoAlpaca 99 demoStock) demoConfig ''SPY'' Bullish 10000 ''2026-01-11''
            (called [GetExpirations ''SPY''] 1 demoState)"
    using wide a g s by (simp add: demoRuntime_simps demoConfig_simps)
  show ?thesis using v d s en a g n n1 n2 w by simp
qed





text \<open>
  C8. The ranking drops every contract whose strike is not positive and sorts the others
  ascending by \<open>|strike - targetStrike|\<close>, stably: the ranked list is a rearrangement of the
  kept contracts, its distances ascend, and the contracts at any one distance appear in their
  input order.
\<close>

theorem ranking_stable:
  "mset (sortedContracts contracts t) = mset (filter (\<lambda>c. contract_strike c > 0) contracts)
   \<and> (\<forall>c \<in> set (sortedContracts contracts t). c \<in> set contracts \<and> 0 < contract_strike c)
   \<and> (\<forall>c \<in> set contracts. 0 < contract_strike c \<longrightarrow> c \<in> set (sortedContracts contracts t))
   \<and> sorted (map (\<lambda>c. \<bar>contract_strike c - t\<bar>) (sortedContracts contracts t))
   \<and> (\<forall>k. filter (\<lambda>c. \<bar>contract_strike c - t\<bar> = k) (sortedContracts contracts t)
          = filter (\<lambda>c. \<bar>contract_strike c - t\<bar> = k)
              (filter (\<lambda>c. contract_strike c > 0) contracts))"
proof -
  have key: "strikeDistance t = (\<lambda>c. \<bar>contract_strike c - t\<bar>)"
    by (rule ext) (simp add: strikeDistance_def)
  have "mset (sortedContracts contracts t)
      = mset (filter (\<lambda>c. contract_strike c > 0) contracts)"
    by (simp add: sortedContracts_def)
  moreover have "\<forall>c \<in> set (sortedContracts contracts t).
      c \<in> set contracts \<and> 0 < contract_strike c"
    by (simp add: sortedContracts_def)
  moreover have "\<forall>c \<in> set contracts. 0 < contract_strike c
      \<longrightarrow> c \<in> set (sortedContracts contracts t)"
    by (simp add: sortedContracts_def)
  moreover have "sorted (map (\<lambda>c. \<bar>contract_strike c - t\<bar>) (sortedContracts contracts t))"
    unfolding sortedContracts_def key by (rule sorted_sort_key)
  moreover have "\<forall>k. filter (\<lambda>c. \<bar>contract_strike c - t\<bar> = k) (sortedContracts contracts t)
          = filter (\<lambda>c. \<bar>contract_strike c - t\<bar> = k)
              (filter (\<lambda>c. contract_strike c > 0) contracts)"
    unfolding sortedContracts_def key by (intro allI sort_key_stable)
  ultimately show ?thesis by blast
qed

theorem ranking_stable_witness:
  "filter (\<lambda>c. contract_strike c > 0) demoCalls
     = [\<lparr>contract_symbol = ''C98'', contract_strike = 98\<rparr>,
        \<lparr>contract_symbol = ''C120'', contract_strike = 120\<rparr>,
        \<lparr>contract_symbol = ''C94'', contract_strike = 94\<rparr>,
        \<lparr>contract_symbol = ''C100'', contract_strike = 100\<rparr>,
        \<lparr>contract_symbol = ''C80'', contract_strike = 80\<rparr>,
        \<lparr>contract_symbol = ''C90'', contract_strike = 90\<rparr>,
        \<lparr>contract_symbol = ''C104'', contract_strike = 104\<rparr>]
   \<and> \<lparr>contract_symbol = ''C0'', contract_strike = 0\<rparr> \<in> set demoCalls
   \<and> \<lparr>contract_symbol = ''C0'', contract_strike = 0\<rparr> \<notin> set (sortedContracts demoCalls 96)
   \<and> sortedContracts demoCalls 96 = demoRanked
   \<and> map (\<lambda>c. \<bar>contract_strike c - 96\<bar>) (sortedContracts demoCalls 96)
        = [2, 2, 4, 6, 8, 16, 24]
   \<and> filter (\<lambda>c. \<bar>contract_strike c - 96\<bar> = 2) (sortedContracts demoCalls 96)
        = [\<lparr>contract_symbol = ''C98'', contract_strike = 98\<rparr>,
           \<lparr>contract_symbol = ''C94'', contract_strike = 94\<rparr>]"
proof -
  note T = ranking_stable [of demoCalls 96]
  have kept: "filter (\<lambda>c. contract_strike c > 0) demoCalls
     = [\<lparr>contract_symbol = ''C98'', contract_strike = 98\<rparr>,
        \<lparr>contract_symbol = ''C120'', contract_strike = 120\<rparr>,
        \<lparr>contract_symbol = ''C94'', contract_strike = 94\<rparr>,
        \<lparr>contract_symbol = ''C100'', contract_strike = 100\<rparr>,
        \<lparr>contract_symbol = ''C80'', contract_strike = 80\<rparr>,
        \<lparr>contract_symbol = ''C90'', contract_strike = 90\<rparr>,
        \<lparr>contract_symbol = ''C104'', contract_strike = 104\<rparr>]"
    by (simp add: demoCalls_def)
  have c0: "\<lparr>contract_symbol = ''C0'', contract_strike = 0\<rparr> \<in> set demoCalls"
    by (simp add: demoCalls_def)
  have out: "\<lparr>contract_symbol = ''C0'', contract_strike = 0\<rparr> \<notin> set (sortedContracts demoCalls 96)"
    using T by fastforce
  have tie: "filter (\<lambda>c. \<bar>contract_strike c - 96\<bar> = 2) (sortedContracts demoCalls 96)
        = [\<lparr>contract_symbol = ''C98'', contract_strike = 98\<rparr>,
           \<lparr>contract_symbol = ''C94'', contract_strike = 94\<rparr>]"
  proof -
    from T have "filter (\<lambda>c. \<bar>contract_strike c - 96\<bar> = 2) (sortedContracts demoCalls 96)
          = filter (\<lambda>c. \<bar>contract_strike c - 96\<bar> = 2)
              (filter (\<lambda>c. contract_strike c > 0) demoCalls)"
      by blast
    then show ?thesis unfolding kept by simp
  qed
  have ds: "map (\<lambda>c. \<bar>contract_strike c - 96\<bar>) (sortedContracts demoCalls 96)
        = [2, 2, 4, 6, 8, 16, 24]"
    by (simp add: demo_sorted demoRanked_def)
  show ?thesis using kept c0 out tie ds demo_sorted by simp
qed

text \<open>
  C9. The underlying price is the trade price when it is present and not zero, else the ask,
  else the bid. When all three are zero or missing the price is 0, nothing is ranked or
  probed, and the function returns null having made the expirations, chain and underlying
  snapshot calls only; a rejected snapshot promise counts as a missing snapshot.
\<close>

theorem underlying_price_fallback:
  "(tradePrice snapshot = Some p \<and> p \<noteq> 0 \<longrightarrow> stockPrice snapshot = p)
   \<and> (zeroOrMissing (tradePrice snapshot) \<and> askPrice snapshot = Some a \<and> a \<noteq> 0
        \<longrightarrow> stockPrice snapshot = a)
   \<and> (zeroOrMissing (tradePrice snapshot) \<and> zeroOrMissing (askPrice snapshot)
        \<and> bidPrice snapshot = Some b \<and> b \<noteq> 0
        \<longrightarrow> stockPrice snapshot = b)
   \<and> (zeroOrMissing (tradePrice snapshot) \<and> zeroOrMissing (askPrice snapshot)
        \<and> zeroOrMissing (bidPrice snapshot)
        \<longrightarrow> stockPrice snapshot = 0
          \<and> rankAndQualify alpaca cfg direction equity best contracts snapshot st' = (Inr None, st'))
   \<and> (options_enabled cfg \<and> createAlpacaProviders rt = Inr alpaca
        \<and> options_getExpirations alpaca symbol' (world st) = (Inr (Some exps), w1)
        \<and> selectExpiration (Date_getTime rt) (Date_now rt) cfg exps = Some best
        \<and> options_getChain alpaca symbol' best w1 = (Inr (Some ch), w2)
        \<and> (if direction = Bullish then calls ch else puts ch) = Some contracts
        \<and> contracts \<noteq> []
        \<and> marketData_getSnapshot alpaca symbol' w2 = (r, w3)
        \<and> snapshot = (case r of Inl e \<Rightarrow> None | Inr s \<Rightarrow> s)
        \<and> zeroOrMissing (tradePrice snapshot) \<and> zeroOrMissing (askPrice snapshot)
        \<and> zeroOrMissing (bidPrice snapshot)
        \<longrightarrow> findBestOptionsContract rt cfg symbol' direction equity st
             = (Inr None,
                called [GetExpirations symbol', GetChain symbol' best, GetStockSnapshot symbol']
                  w3 st))"
proof -
  have sp: "stockPrice snapshot
      = js_or (tradePrice snapshot) (js_or (askPrice snapshot) (js_or (bidPrice snapshot) 0))"
    by (simp add: stockPrice_def tradePrice_def askPrice_def bidPrice_def)
  have skip: "js_or x y = y" if "zeroOrMissing x" for x y
    using that by (cases x) (simp_all add: js_or_def zeroOrMissing_def)
  have take: "js_or (Some v) y = v" if "v \<noteq> 0" for v y
    using that by (simp add: js_or_def)
  have t: "tradePrice snapshot = Some p \<and> p \<noteq> 0 \<longrightarrow> stockPrice snapshot = p"
    using sp take by simp
  have a: "zeroOrMissing (tradePrice snapshot) \<and> askPrice snapshot = Some a \<and> a \<noteq> 0
        \<longrightarrow> stockPrice snapshot = a"
    using sp take skip by simp
  have b: "zeroOrMissing (tradePrice snapshot) \<and> zeroOrMissing (askPrice snapshot)
        \<and> bidPrice snapshot = Some b \<and> b \<noteq> 0
        \<longrightarrow> stockPrice snapshot = b"
    using sp take skip by simp
  have z: "stockPrice snapshot = 0"
    if "zeroOrMissing (tradePrice snapshot)" "zeroOrMissing (askPrice snapshot)"
      "zeroOrMissing (bidPrice snapshot)"
    using sp that by (simp add: skip)
  have n: "zeroOrMissing (tradePrice snapshot) \<and> zeroOrMissing (askPrice snapshot)
        \<and> zeroOrMissing (bidPrice snapshot)
        \<longrightarrow> stockPrice snapshot = 0
          \<and> rankAndQualify alpaca cfg direction equity best contracts snapshot st' = (Inr None, st')"
    using z by (simp add: rankAndQualify_no_price)
  have e: "options_enabled cfg \<and> createAlpacaProviders rt = Inr alpaca
        \<and> options_getExpirations alpaca symbol' (world st) = (Inr (Some exps), w1)
        \<and> selectExpiration (Date_getTime rt) (Date_now rt) cfg exps = Some best
        \<and> options_getChain alpaca symbol' best w1 = (Inr (Some ch), w2)
        \<and> (if direction = Bullish then calls ch else puts ch) = Some contracts
        \<and> contracts \<noteq> []
        \<and> marketData_getSnapshot alpaca symbol' w2 = (r, w3)
        \<and> snapshot = (case r of Inl e \<Rightarrow> None | Inr s \<Rightarrow> s)
        \<and> zeroOrMissing (tradePrice snapshot) \<and> zeroOrMissing (askPrice snapshot)
        \<and> zeroOrMissing (bidPrice snapshot)
        \<longrightarrow> findBestOptionsContract rt cfg symbol' direction equity st
             = (Inr None,
                called [GetExpirations symbol', GetChain symbol' best, GetStockSnapshot symbol']
                  w3 st)"
  proof (intro impI, elim conjE)
    assume en: "options_enabled cfg"
      and h: "createAlpacaProviders rt = Inr alpaca"
        "options_getExpirations alpaca symbol' (world st) = (Inr (Some exps), w1)"
        "selectExpiration (Date_getTime rt) (Date_now rt) cfg exps = Some best"
        "options_getChain alpaca symbol' best w1 = (Inr (Some ch), w2)"
        "(if direction = Bullish then calls ch else puts ch) = Some contracts"
        "contracts \<noteq> []"
        "marketData_getSnapshot alpaca symbol' w2 = (r, w3)"
      and s: "snapshot = (case r of Inl e \<Rightarrow> None | Inr s \<Rightarrow> s)"
      and zm: "zeroOrMissing (tradePrice snapshot)" "zeroOrMissing (askPrice snapshot)"
        "zeroOrMissing (bidPrice snapshot)"
    have "tryBody rt cfg symbol' direction equity st
       = rankAndQualify alpaca cfg direction equity best contracts snapshot
           (called [GetExpirations symbol', GetChain symbol' best, GetStockSnapshot symbol'] w3 st)"
      unfolding s by (rule tryBody_ranked [OF h])
    then have "tryBody rt cfg symbol' direction equity st
       = (Inr None,
          called [GetExpirations symbol', GetChain symbol' best, GetStockSnapshot symbol'] w3 st)"
      using z [OF zm] by (simp add: rankAndQualify_no_price)
    then show "findBestOptionsContract rt cfg symbol' direction equity st
             = (Inr None,
                called [GetExpirations symbol', GetChain symbol' best, GetStockSnapshot symbol']
                  w3 st)"
      using en by (simp add: findBestOptionsContract_returned)
  qed
  show ?thesis
    by (intro conjI; fact)
qed

theorem underlying_price_fallback_witness:
  "tradePrice demoStock = Some 100
   \<and> stockPrice demoStock = 100
   \<and> zeroOrMissing (tradePrice (Some \<lparr>latest_trade = Some \<lparr>price = Some 0\<rparr>,
          latest_quote = Some \<lparr>bid_price = Some 49, ask_price = Some 50\<rparr>\<rparr>))
   \<and> stockPrice (Some \<lparr>latest_trade = Some \<lparr>price = Some 0\<rparr>,
          latest_quote = Some \<lparr>bid_price = Some 49, ask_price = Some 50\<rparr>\<rparr>) = 50
   \<and> zeroOrMissing (askPrice (Some \<lparr>latest_trade = None,
          latest_quote = Some \<lparr>bid_price = Some 49, ask_price = None\<rparr>\<rparr>))
   \<and> stockPrice (Some \<lparr>latest_trade = None,
          latest_quote = Some \<lparr>bid_price = Some 49, ask_price = None\<rparr>\<rparr>) = 49
   \<and> zeroOrMissing (tradePrice demoNoPrice) \<and> zeroOrMissing (askPrice demoNoPrice)
   \<and> zeroOrMissing (bidPrice demoNoPrice)
   \<and> stockPrice demoNoPrice = 0
   \<and> marketData_getSnapshot (demoAlpaca 99 demoNoPrice) ''SPY'' 2 = (Inr demoNoPrice, 3)
   \<and> findBestOptionsContract (demoRuntime 99 demoNoPrice) demoConfig ''SPY'' Bullish 10000
        demoState
      = (Inr None,
         \<lparr>world = 3,
          trace = [GetExpirations ''SPY'', GetChain ''SPY'' ''2026-01-11'', GetStockSnapshot ''SPY''],
          logs = []\<rparr>)"
proof -
  let ?askOnly = "Some \<lparr>latest_trade = Some \<lparr>price = Some 0\<rparr>,
          latest_quote = Some \<lparr>bid_price = Some 49, ask_price = Some 50\<rparr>\<rparr>"
  let ?bidOnly = "Some \<lparr>latest_trade = None,
          latest_quote = Some \<lparr>bid_price = Some 49, ask_price = None\<rparr>\<rparr>"
  let ?A = "demoAlpaca 99 demoNoPrice"
  let ?ch = "\<lparr>calls = Some demoCalls, puts = Some []\<rparr>"
  have t: "tradePrice demoStock = Some 100"
    by (simp add: tradePrice_def demoStock_def)
  have a: "zeroOrMissing (tradePrice ?askOnly)" "askPrice ?askOnly = Some 50"
    by (simp_all add: tradePrice_def askPrice_def zeroOrMissing_def)
  have b: "zeroOrMissing (tradePrice ?bidOnly)" "zeroOrMissing (askPrice ?bidOnly)"
    "bidPrice ?bidOnly = Some 49"
    by (simp_all add: tradePrice_def askPrice_def bidPrice_def zeroOrMissing_def)
  have z: "zeroOrMissing (tradePrice demoNoPrice)" "zeroOrMissing (askPrice demoNoPrice)"
    "zeroOrMissing (bidPrice demoNoPrice)"
    by (simp_all add: tradePrice_def askPrice_def bidPrice_def zeroOrMissing_def demoNoPrice_def)
  have h: "options_enabled demoConfig"
    "createAlpacaProviders (demoRuntime 99 demoNoPrice) = Inr ?A"
    "options_getExpirations ?A ''SPY'' (world demoState) = (Inr (Some demoExpirations), 1)"
    "selectExpiration (Date_getTime (demoRuntime 99 demoNoPrice))
       (Date_now (demoRuntime 99 demoNoPrice)) demoConfig demoExpirations = Some ''2026-01-11''"
    "options_getChain ?A ''SPY'' ''2026-01-11'' 1 = (Inr (Some ?ch), 2)"
    "(if Bullish = Bullish then calls ?ch else puts ?ch) = Some demoCalls"
    "demoCalls \<noteq> []"
    "marketData_getSnapshot ?A ''SPY'' 2 = (Inr demoNoPrice, 3)"
    "demoNoPrice = (case Inr demoNoPrice :: error + stock_snapshot option of
        Inl e \<Rightarrow> None | Inr s \<Rightarrow> s)"
    by (simp_all add: demoConfig_simps demoRuntime_simps demoAlpaca_simps demoState_simps
        demo_select demo_nonempty)
  have nz: "(100 :: real) \<noteq> 0" "(50 :: real) \<noteq> 0" "(49 :: real) \<noteq> 0"
    by simp_all
  have s100: "stockPrice demoStock = 100"
    using underlying_price_fallback [where snapshot = demoStock and p = 100, THEN conjunct1] t nz
    by blast
  have s50: "stockPrice ?askOnly = 50"
    using underlying_price_fallback [where snapshot = ?askOnly and a = 50,
        THEN conjunct2, THEN conjunct1] a nz
    by blast
  have s49: "stockPrice ?bidOnly = 49"
    using underlying_price_fallback [where snapshot = ?bidOnly and b = 49,
        THEN conjunct2, THEN conjunct2, THEN conjunct1] b nz
    by blast
  note E = underlying_price_fallback [where snapshot = demoNoPrice and cfg = demoConfig
      and rt = "demoRuntime 99 demoNoPrice" and alpaca = ?A and symbol' = "''SPY''"
      and st = demoState and exps = demoExpirations and ?w1.0 = 1 and best = "''2026-01-11''"
      and ch = ?ch and ?w2.0 = 2 and direction = Bullish and contracts = demoCalls
      and r = "Inr demoNoPrice" and ?w3.0 = 3 and equity = 10000]
  have s0: "stockPrice demoNoPrice = 0" using E z by blast
  have "findBestOptionsContract (demoRuntime 99 demoNoPrice) demoConfig ''SPY'' Bullish 10000
        demoState
      = (Inr None,
         called [GetExpirations ''SPY'', GetChain ''SPY'' ''2026-01-11'', GetStockSnapshot ''SPY'']
           3 demoState)"
    using E h z by blast
  then have run: "findBestOptionsContract (demoRuntime 99 demoNoPrice) demoConfig ''SPY'' Bullish
        10000 demoState
      = (Inr None,
         \<lparr>world = 3,
          trace = [GetExpirations ''SPY'', GetChain ''SPY'' ''2026-01-11'', GetStockSnapshot ''SPY''],
          logs = []\<rparr>)"
    by (simp add: called_def demoState_def)
  show ?thesis
    using t a b z s100 s50 s49 s0 h(8) run by simp
qed







text \<open>
  C6. The loop runs over the first five ranked candidates only. Its snapshot calls are the
  symbols of a prefix of the ranking, in rank order, at most five of them, and when a
  contract is returned it is the candidate of the last call: nothing is fetched after the
  first qualifying candidate. All the provider calls of one invocation form a prefix of one
  expirations call, one chain call, one underlying snapshot call and at most five candidate
  snapshot calls, so there are at most eight.
\<close>

theorem bounded_provider_calls:
  fixes rt :: "'w runtime"
  shows
  "(\<exists>k \<le> 5.
       trace (snd (qualifyLoop alpaca cfg direction equity best (take 5 ranked) st'))
         = trace st' @ map probeCall (take k ranked)
       \<and> (\<forall>r. fst (qualifyLoop alpaca cfg direction equity best (take 5 ranked) st')
                 = Inr (Some r)
              \<longrightarrow> 0 < k \<and> k \<le> length ranked
                \<and> symbol r = contract_symbol (ranked ! (k - 1))))
   \<and> (\<exists>best' syms rest. length syms \<le> 5
        \<and> trace (snd (findBestOptionsContract rt cfg symbol' direction equity st)) @ rest
           = trace st @ [GetExpirations symbol', GetChain symbol' best', GetStockSnapshot symbol']
               @ map GetOptionSnapshot syms)
   \<and> length (trace (snd (findBestOptionsContract rt cfg symbol' direction equity st)))
        \<le> length (trace st) + (1 + 1 + 1 + 5)"
proof -
  let ?cs = "take 5 ranked"
  let ?loop = "qualifyLoop alpaca cfg direction equity best ?cs st'"
  from qualifyLoop_trace_prefix [of ?cs alpaca cfg direction equity best st']
  obtain k where k: "k \<le> length ?cs"
    and t: "trace (snd ?loop) = trace st' @ map probeCall (take k ?cs)"
    and s: "\<forall>r. fst ?loop = Inr (Some r) \<longrightarrow> 0 < k \<and> symbol r = contract_symbol (?cs ! (k - 1))"
    by blast
  have k5: "k \<le> 5" and kl: "k \<le> length ranked" using k by simp_all
  have tk: "take k ?cs = take k ranked" using k5 by (simp add: min_def)
  have nth: "?cs ! (k - 1) = ranked ! (k - 1)" if "0 < k"
    using that k5 by simp
  have loop: "\<exists>k \<le> 5.
       trace (snd ?loop) = trace st' @ map probeCall (take k ranked)
       \<and> (\<forall>r. fst ?loop = Inr (Some r)
              \<longrightarrow> 0 < k \<and> k \<le> length ranked
                \<and> symbol r = contract_symbol (ranked ! (k - 1)))"
    using k5 kl t s tk nth by (intro exI [of _ k]) auto
  let ?run = "findBestOptionsContract rt cfg symbol' direction equity st"
  from findBestOptionsContract_trace_shape [of rt cfg symbol' direction equity st]
  obtain best' syms rest where l: "length syms \<le> 5"
    and sh: "trace (snd ?run) @ rest
       = trace st @ [GetExpirations symbol', GetChain symbol' best', GetStockSnapshot symbol']
           @ map GetOptionSnapshot syms"
    by blast
  have "length (trace (snd ?run)) + length rest = length (trace st) + 3 + length syms"
    using arg_cong [OF sh, of length] by simp
  then have bound: "length (trace (snd ?run)) \<le> length (trace st) + (1 + 1 + 1 + 5)"
    using l by simp
  have shape: "\<exists>best' syms rest. length syms \<le> 5
        \<and> trace (snd ?run) @ rest
           = trace st @ [GetExpirations symbol', GetChain symbol' best', GetStockSnapshot symbol']
               @ map GetOptionSnapshot syms"
    using l sh by blast
  show ?thesis
    by (intro conjI; fact)
qed

theorem bounded_provider_calls_witness:
  "fst (qualifyLoop (demoAlpaca 99 demoStock) demoConfig Bullish 10000 ''2026-01-11''
        (take 5 demoRanked) \<lparr>world = 3, trace = [], logs = []\<rparr>)
     = Inr (Some \<lparr>symbol = ''C100'', strike = 100, expiration = ''2026-01-11'', delta = 0.55,
         mid_price = 4.8, max_contracts = 1, option_type = Call\<rparr>)
   \<and> length demoRanked = 7
   \<and> trace (snd (qualifyLoop (demoAlpaca 99 demoStock) demoConfig Bullish 10000 ''2026-01-11''
        (take 5 demoRanked) \<lparr>world = 3, trace = [], logs = []\<rparr>))
       = map probeCall (take 3 demoRanked)
   \<and> map probeCall (take 3 demoRanked)
       = [GetOptionSnapshot ''C98'', GetOptionSnapshot ''C94'', GetOptionSnapshot ''C100'']
   \<and> contract_symbol (demoRanked ! (3 - 1)) = ''C100''
   \<and> trace (snd (findBestOptionsContract (demoRuntime 99 demoStock) demoConfig ''SPY'' Bullish
        10000 demoState))
       = [GetExpirations ''SPY'', GetChain ''SPY'' ''2026-01-11'', GetStockSnapshot ''SPY'',
          GetOptionSnapshot ''C98'', GetOptionSnapshot ''C94'', GetOptionSnapshot ''C100'']
   \<and> length (trace (snd (findBestOptionsContract (demoRuntime 99 demoStock) demoConfig ''SPY''
        Bullish 10000 demoState))) \<le> length (trace demoState) + 8"
proof -
  let ?st = "\<lparr>world = 3, trace = [], logs = []\<rparr> :: nat state"
  let ?loop = "qualifyLoop (demoAlpaca 99 demoStock) demoConfig Bullish 10000 ''2026-01-11''
        (take 5 demoRanked) ?st"
  let ?r = "\<lparr>symbol = ''C100'', strike = 100, expiration = ''2026-01-11'', delta = 0.55,
         mid_price = 4.8, max_contracts = 1, option_type = Call\<rparr>"
  note T = bounded_provider_calls [where alpaca = "demoAlpaca 99 demoStock" and cfg = demoConfig
      and direction = Bullish and equity = 10000 and best = "''2026-01-11''"
      and ranked = demoRanked and st' = ?st and rt = "demoRuntime 99 demoStock"
      and symbol' = "''SPY''" and st = demoState]
  have f: "fst ?loop = Inr (Some ?r)"
    using demo_loop [of demoStock "''2026-01-11''" "[]" "[]"] by simp
  have tr: "trace (snd ?loop)
      = [GetOptionSnapshot ''C98'', GetOptionSnapshot ''C94'', GetOptionSnapshot ''C100'']"
    using demo_loop [of demoStock "''2026-01-11''" "[]" "[]"] by simp
  have m: "map probeCall (take 3 demoRanked)
       = [GetOptionSnapshot ''C98'', GetOptionSnapshot ''C94'', GetOptionSnapshot ''C100'']"
    by (simp add: demoRanked_def probeCall_def)
  have len: "length demoRanked = 7" by (simp add: demoRanked_def)
  have nth: "contract_symbol (demoRanked ! (3 - 1)) = ''C100''" by (simp add: demoRanked_def)
  have run: "trace (snd (findBestOptionsContract (demoRuntime 99 demoStock) demoConfig ''SPY''
        Bullish 10000 demoState))
       = [GetExpirations ''SPY'', GetChain ''SPY'' ''2026-01-11'', GetStockSnapshot ''SPY'',
          GetOptionSnapshot ''C98'', GetOptionSnapshot ''C94'', GetOptionSnapshot ''C100'']"
    by (simp add: demo_run)
  have bound: "length (trace (snd (findBestOptionsContract (demoRuntime 99 demoStock) demoConfig
        ''SPY'' Bullish 10000 demoState))) \<le> length (trace demoState) + 8"
    using T by simp
  show ?thesis
    using f len tr m nth run bound by simp
qed

end
